theory Spec2Isabelle
  imports Main "HOL-Library.Monad_Syntax"
begin

section \<open>Exceptions and the value cell\<close>

text \<open>
  A non-null \<open>std::exception_ptr\<close> is modelled by the exception it points to.
  \<open>nested_exception\<close> is \<open>std::nested_exception\<close>: its argument is the
  \<open>nested_ptr()\<close> captured by the default constructor from
  \<open>std::current_exception()\<close> (\<open>None\<close> when no exception is being handled).
  \<open>with_nested t n\<close> is an object of the type \<open>std::throw_with_nested\<close> derives from
  the type of \<open>t\<close> and from \<open>std::nested_exception\<close>.
\<close>

datatype exn =
    broken_promise
  | user_exception string
  | nested_exception "exn option"
  | with_nested exn "exn option"

text \<open>
  \<open>std::throw_with_nested(t)\<close> while \<open>cur\<close> is the exception being handled. By the
  C++ standard (except.nested) the thrown object is of a type derived from both the type
  of \<open>t\<close> and \<open>std::nested_exception\<close> (here \<open>with_nested t cur\<close>) only when the type of
  \<open>t\<close> is not \<open>std::nested_exception\<close> and not derived from it; otherwise \<open>t\<close> itself
  is thrown.
\<close>

definition throw_with_nested :: "exn \<Rightarrow> exn option \<Rightarrow> exn" where
  "throw_with_nested t cur = (case t of
       nested_exception n \<Rightarrow> t
     | with_nested u n \<Rightarrow> t
     | broken_promise \<Rightarrow> with_nested t cur
     | user_exception m \<Rightarrow> with_nested t cur)"

text \<open>
  \<open>future_state_base::state\<close> together with the payload of \<open>future_state<T...>\<close>:
  \<open>invalid = 0\<close>, \<open>future = 1\<close> (pending), \<open>result = 2\<close> (the value tuple is
  constructed) and \<open>exception_min\<close> or greater (the word holds the exception pointer).
  A value tuple \<open>std::tuple<T...>\<close> is a list of elements.
\<close>

datatype 'v future_state = st_invalid | st_future | st_result "'v list" | st_exception exn

definition fs_available :: "'v future_state \<Rightarrow> bool" where
  "fs_available s = (case s of st_result v \<Rightarrow> True | st_exception e \<Rightarrow> True
     | st_invalid \<Rightarrow> False | st_future \<Rightarrow> False)"

definition fs_failed :: "'v future_state \<Rightarrow> bool" where
  "fs_failed s = (case s of st_exception e \<Rightarrow> True | st_result v \<Rightarrow> False
     | st_invalid \<Rightarrow> False | st_future \<Rightarrow> False)"

text \<open>Modelled from the spec: \<open>future_state_base::set_to_broken_promise\<close> is only declared
  in the header; the cell becomes \<open>failure(broken-promise)\<close>.\<close>

definition set_to_broken_promise :: "'v future_state \<Rightarrow> 'v future_state" where
  "set_to_broken_promise s = st_exception broken_promise"

text \<open>\<open>future_state::set\<close> and \<open>future_state_base::set_exception\<close>: both assert that the
  cell is pending; a failed assertion is \<open>None\<close>.\<close>

definition fs_set :: "'v list \<Rightarrow> 'v future_state \<Rightarrow> 'v future_state option" where
  "fs_set a s = (if s = st_future then Some (st_result a) else None)"

definition fs_set_exception :: "exn \<Rightarrow> 'v future_state \<Rightarrow> 'v future_state option" where
  "fs_set_exception ex s = (if s = st_future then Some (st_exception ex) else None)"

text \<open>\<open>get_exception() &&\<close>: asserts a failure, moves the pointer out and leaves the cell
  invalid. The result is the exception and the cell afterwards.\<close>

definition fs_get_exception :: "'v future_state \<Rightarrow> (exn \<times> 'v future_state) option" where
  "fs_get_exception s = (case s of st_exception e \<Rightarrow> Some (e, st_invalid)
     | st_result v \<Rightarrow> None | st_invalid \<Rightarrow> None | st_future \<Rightarrow> None)"

text \<open>\<open>get_value() &&\<close>: asserts a value and moves the tuple out.\<close>

definition fs_get_value :: "'v future_state \<Rightarrow> 'v list option" where
  "fs_get_value s = (case s of st_result v \<Rightarrow> Some v
     | st_exception e \<Rightarrow> None | st_invalid \<Rightarrow> None | st_future \<Rightarrow> None)"

text \<open>\<open>get() &&\<close>: asserts that the cell is not pending; a failure is rethrown (\<open>Inl\<close>) after
  being moved out, a value is returned. On an invalid cell the source reads the
  uninitialized tuple storage, which has no defined result: \<open>None\<close>.\<close>

definition fs_get :: "'v future_state \<Rightarrow> ((exn + 'v list) \<times> 'v future_state) option" where
  "fs_get s = (case s of st_future \<Rightarrow> None
     | st_exception e \<Rightarrow> Some (Inl e, st_invalid)
     | st_result v \<Rightarrow> Some (Inr v, st_result v)
     | st_invalid \<Rightarrow> None)"

text \<open>\<open>ignore()\<close>: asserts that the cell is not pending, destroys the contents and marks the
  cell invalid.\<close>

definition fs_ignore :: "'v future_state \<Rightarrow> 'v future_state option" where
  "fs_ignore s = (if s = st_future then None else Some st_invalid)"

text \<open>\<open>internal::get0_return_type\<close>: the primary template (chosen for the empty pack only)
  returns \<open>void\<close>, here \<open>None\<close>; the partial specialization for a non-empty pack \<open>T0, T...\<close> returns
  element 0 of the tuple.\<close>

fun get0 :: "'v list \<Rightarrow> 'v option" where
  "get0 [] = None"
| "get0 (x # xs) = Some x"

section \<open>Promises, futures, tasks and the world they live in\<close>

text \<open>
  Objects are addressed by numbers. \<open>promise_base::_state\<close> points to the cell in use:
  the \<open>_local_state\<close> of a promise, the \<open>_state\<close> of a future or the \<open>_state\<close> of a
  continuation task.
\<close>

datatype state_ptr = in_promise nat | in_future nat | in_task nat

record 'v promise =
  pr_future :: "nat option"
  pr_state :: "state_ptr option"
  pr_task :: "nat option"
  pr_local_state :: "'v future_state"

record 'v future =
  fut_promise :: "nat option"
  fut_state :: "'v future_state"

text \<open>
  User callables. A callable has a name, under which each call is logged, and a pure body
  that either raises (\<open>Inl\<close>) or returns. The three kinds follow the static return type
  that selects the \<open>futurize\<close> specialization: a plain \<open>T\<close>, \<open>void\<close>, or a future.
  A callable returning a future returns either a future without a promise holding the
  given cell, or a pending future whose promise is kept by the callee.
\<close>

datatype 'v fut_result = ready_fut "'v future_state" | pending_fut

datatype 'v func =
    func_plain string "'v list \<Rightarrow> exn + 'v"
  | func_void string "'v list \<Rightarrow> exn + unit"
  | func_future string "'v list \<Rightarrow> exn + 'v fut_result"

text \<open>
  The callables the header itself passes to \<open>then_wrapped\<close>: the two
  \<open>finally_body\<close> specializations (holding the user's \<open>_func\<close>) and the lambda inside
  \<open>finally_body\<close> for a callable returning a future (holding the captured \<open>result\<close> future).
\<close>

datatype 'v wfunc =
    finally_body_false "'v func"
  | finally_body_true "'v func"
  | finally_lambda nat

text \<open>
  The lambdas that become continuations: the one of \<open>then_impl\<close> and the one of
  \<open>then_wrapped_impl\<close>, each with its captured \<open>pr\<close> and \<open>func\<close>. A task is a
  \<open>continuation\<close> around such a lambda or a \<open>thread_wake_task\<close> (\<open>_thread\<close>,
  \<open>_waiting_for\<close>).
\<close>

datatype 'v closure =
    then_lambda nat "'v func"
  | then_wrapped_lambda nat "'v wfunc"

datatype 'v continuation =
    continuation "'v closure"
  | thread_wake_task nat nat

record 'v task =
  task_state :: "'v future_state"
  task_func :: "'v continuation"

text \<open>
  The world: the three object stores, and the collaborators the header calls.
  \<open>run_queue\<close> is the reactor's task queue, \<open>need_preempt\<close> what \<open>need_preempt()\<close>
  reports, \<open>current_thread\<close> what \<open>thread_impl::get()\<close> returns, \<open>switched_in\<close> the
  threads passed to \<open>thread_impl::switch_in\<close>, \<open>failed_reports\<close> the arguments of
  \<open>report_failed_future\<close>, \<open>invoked\<close> the names of the user callables called so far.
\<close>

record 'v world =
  promises :: "nat \<rightharpoonup> 'v promise"
  futures :: "nat \<rightharpoonup> 'v future"
  tasks :: "nat \<rightharpoonup> 'v task"
  run_queue :: "nat list"
  need_preempt :: bool
  current_thread :: "nat option"
  switched_in :: "nat list"
  failed_reports :: "exn list"
  invoked :: "string list"
  next_id :: nat


section \<open>The collaborators\<close>

text \<open>Modelled from the spec: the reactor's \<open>schedule\<close> and \<open>schedule_urgent\<close> are not in
  the header. \<open>enqueue(task)\<close> appends to the executor's FIFO, \<open>enqueue_urgent(task)\<close>
  prepends.\<close>

definition schedule :: "nat \<Rightarrow> 'v world \<Rightarrow> 'v world" where
  "schedule t w = w\<lparr>run_queue := run_queue w @ [t]\<rparr>"

definition schedule_urgent :: "nat \<Rightarrow> 'v world \<Rightarrow> 'v world" where
  "schedule_urgent t w = w\<lparr>run_queue := t # run_queue w\<rparr>"

text \<open>Modelled from the spec: \<open>report_failed_future\<close> is only declared in the header; it
  is the logger hook for dropped failures, here a log of the reported exceptions.\<close>

definition report_failed_future :: "exn \<Rightarrow> 'v world \<Rightarrow> 'v world" where
  "report_failed_future ex w = w\<lparr>failed_reports := failed_reports w @ [ex]\<rparr>"

text \<open>Modelled from the spec: \<open>thread_impl::switch_in\<close> (thread_impl.hh) is not in the
  header; it enqueues the resumption of the thread, here a log of the resumed threads.\<close>

definition switch_in :: "nat \<Rightarrow> 'v world \<Rightarrow> 'v world" where
  "switch_in th w = w\<lparr>switched_in := switched_in w @ [th]\<rparr>"

text \<open>Calling a user callable: the call is logged, the body decides the outcome.\<close>

definition invoke :: "string \<Rightarrow> ('a \<Rightarrow> exn + 'r) \<Rightarrow> 'a \<Rightarrow> 'v world \<Rightarrow> (exn + 'r) \<times> 'v world" where
  "invoke n body args w = (body args, w\<lparr>invoked := invoked w @ [n]\<rparr>)"

section \<open>Cells behind a state pointer\<close>

definition read_state :: "state_ptr \<Rightarrow> 'v world \<Rightarrow> 'v future_state option" where
  "read_state l w = (case l of
       in_promise p \<Rightarrow> map_option pr_local_state (promises w p)
     | in_future f \<Rightarrow> map_option fut_state (futures w f)
     | in_task t \<Rightarrow> map_option task_state (tasks w t))"

definition write_state :: "state_ptr \<Rightarrow> 'v future_state \<Rightarrow> 'v world \<Rightarrow> 'v world option" where
  "write_state l s w = (case l of
       in_promise p \<Rightarrow> do {
         pr \<leftarrow> promises w p;
         Some (w\<lparr>promises := (promises w)(p \<mapsto> pr\<lparr>pr_local_state := s\<rparr>)\<rparr>) }
     | in_future f \<Rightarrow> do {
         fu \<leftarrow> futures w f;
         Some (w\<lparr>futures := (futures w)(f \<mapsto> fu\<lparr>fut_state := s\<rparr>)\<rparr>) }
     | in_task t \<Rightarrow> do {
         ta \<leftarrow> tasks w t;
         Some (w\<lparr>tasks := (tasks w)(t \<mapsto> ta\<lparr>task_state := s\<rparr>)\<rparr>) })"

section \<open>promise\<close>

text \<open>\<open>promise()\<close>: \<open>promise_base(&_local_state)\<close>, no future, no task, a pending local
  cell. The result is the address of the new promise.\<close>

definition promise_ctor :: "'v world \<Rightarrow> nat \<times> 'v world" where
  "promise_ctor w = (let p = next_id w in
     (p, w\<lparr>promises := (promises w)(p \<mapsto>
            \<lparr>pr_future = None, pr_state = Some (in_promise p), pr_task = None,
             pr_local_state = st_future\<rparr>),
          next_id := Suc p\<rparr>))"

text \<open>\<open>future_base::detach_promise\<close>: clears \<open>_state\<close> and \<open>_future\<close> of the linked promise
  and the future's \<open>_promise\<close>; returns the promise. Dereferencing a null \<open>_promise\<close> is
  \<open>None\<close>.\<close>

definition detach_promise :: "nat \<Rightarrow> 'v world \<Rightarrow> (nat \<times> 'v world) option" where
  "detach_promise f w = do {
     fu \<leftarrow> futures w f;
     p \<leftarrow> fut_promise fu;
     pr \<leftarrow> promises w p;
     Some (p, w\<lparr>promises := (promises w)(p \<mapsto> pr\<lparr>pr_state := None, pr_future := None\<rparr>),
               futures := (futures w)(f \<mapsto> fu\<lparr>fut_promise := None\<rparr>)\<rparr>) }"

text \<open>\<open>promise::get_future\<close> with the constructor \<open>future(promise* pr)\<close>: the assertion,
  then \<open>future_base(pr, &_state)\<close> links both sides and the local cell of the promise
  is moved into the new future.\<close>

definition get_future :: "nat \<Rightarrow> 'v world \<Rightarrow> (nat \<times> 'v world) option" where
  "get_future p w = do {
     pr \<leftarrow> promises w p;
     if pr_future pr = None \<and> pr_state pr \<noteq> None \<and> pr_task pr = None then
       let f = next_id w in
       Some (f, w\<lparr>futures := (futures w)(f \<mapsto>
                    \<lparr>fut_promise = Some p, fut_state = pr_local_state pr\<rparr>),
                 promises := (promises w)(p \<mapsto>
                    pr\<lparr>pr_future := Some f, pr_state := Some (in_future f),
                       pr_local_state := st_invalid\<rparr>),
                 next_id := Suc f\<rparr>)
     else None }"

text \<open>\<open>promise::make_ready\<close>: with a task, \<open>_state\<close> is cleared and the task goes to
  \<open>schedule_urgent\<close> when \<open>Urgent == urgent::yes\<close> and \<open>need_preempt()\<close> is false, to
  \<open>schedule\<close> otherwise; without a task nothing happens.\<close>

definition make_ready :: "bool \<Rightarrow> nat \<Rightarrow> 'v world \<Rightarrow> 'v world option" where
  "make_ready urgent p w = do {
     pr \<leftarrow> promises w p;
     case pr_task pr of
       None \<Rightarrow> Some w
     | Some t \<Rightarrow>
         let w1 = w\<lparr>promises := (promises w)(p \<mapsto> pr\<lparr>pr_state := None, pr_task := None\<rparr>)\<rparr> in
         Some (if urgent \<and> \<not> need_preempt w1 then schedule_urgent t w1 else schedule t w1) }"

text \<open>\<open>promise::set_value\<close> and \<open>promise::set_exception\<close>: guarded by the state pointer.\<close>

definition set_value :: "nat \<Rightarrow> 'v list \<Rightarrow> 'v world \<Rightarrow> 'v world option" where
  "set_value p a w = do {
     pr \<leftarrow> promises w p;
     case pr_state pr of
       None \<Rightarrow> Some w
     | Some l \<Rightarrow> do {
         s \<leftarrow> read_state l w;
         s1 \<leftarrow> fs_set a s;
         w1 \<leftarrow> write_state l s1 w;
         make_ready False p w1 } }"

definition set_exception :: "nat \<Rightarrow> exn \<Rightarrow> 'v world \<Rightarrow> 'v world option" where
  "set_exception p ex w = do {
     pr \<leftarrow> promises w p;
     case pr_state pr of
       None \<Rightarrow> Some w
     | Some l \<Rightarrow> do {
         s \<leftarrow> read_state l w;
         s1 \<leftarrow> fs_set_exception ex s;
         w1 \<leftarrow> write_state l s1 w;
         make_ready False p w1 } }"

text \<open>\<open>promise::set_urgent_state\<close>: the argument is a reference to a cell, here the pointer
  \<open>src\<close>. When the state pointer is set, the cell is move-assigned (the source cell is
  left invalid) and \<open>make_ready<urgent::yes>\<close> runs; otherwise nothing is touched.\<close>

definition set_urgent_state :: "nat \<Rightarrow> state_ptr \<Rightarrow> 'v world \<Rightarrow> 'v world option" where
  "set_urgent_state p src w = do {
     pr \<leftarrow> promises w p;
     case pr_state pr of
       None \<Rightarrow> Some w
     | Some l \<Rightarrow> do {
         s \<leftarrow> read_state src w;
         w1 \<leftarrow> write_state src st_invalid w;
         w2 \<leftarrow> write_state l s w1;
         make_ready True p w2 } }"


text \<open>Modelled from the spec: \<open>promise_base(promise_base&&)\<close> is only declared in the
  header. By the rules for moving a promise (Migration Link), the new promise takes over
  the future, state and task pointers, the linked future is made to point to the new
  promise, and the source is left without future, state and task.
  The body of \<open>promise(promise&&)\<close> is in the header: when the state pointer addressed the
  local cell of \<open>x\<close> it is redirected to the new local cell and the cell is moved.
  \<open>promise_move_ctor this x\<close> constructs at the address \<open>this\<close> from \<open>x\<close>.\<close>

definition promise_move_ctor :: "nat \<Rightarrow> nat \<Rightarrow> 'v world \<Rightarrow> 'v world option" where
  "promise_move_ctor this x w = do {
     px \<leftarrow> promises w x;
     futs \<leftarrow> (case pr_future px of
                None \<Rightarrow> Some (futures w)
              | Some f \<Rightarrow> do {
                  fu \<leftarrow> futures w f;
                  Some ((futures w)(f \<mapsto> fu\<lparr>fut_promise := Some this\<rparr>)) });
     let is_local = (pr_state px = Some (in_promise x));
         new = \<lparr>pr_future = pr_future px,
                pr_state = (if is_local then Some (in_promise this) else pr_state px),
                pr_task = pr_task px,
                pr_local_state = (if is_local then pr_local_state px else st_future)\<rparr>;
         old = \<lparr>pr_future = None, pr_state = None, pr_task = None,
                pr_local_state = (if is_local then st_invalid else pr_local_state px)\<rparr>
     in Some (w\<lparr>promises := (promises w)(x \<mapsto> old, this \<mapsto> new), futures := futs\<rparr>) }"

definition promise_move :: "nat \<Rightarrow> 'v world \<Rightarrow> (nat \<times> 'v world) option" where
  "promise_move x w = do {
     w1 \<leftarrow> promise_move_ctor (next_id w) x (w\<lparr>next_id := Suc (next_id w)\<rparr>);
     Some (next_id w, w1) }"

text \<open>Modelled from the spec: \<open>promise_base::check_during_destruction\<close> is only declared
  in the header. With a linked future: if the cell is pending, the future's cell becomes
  \<open>failure(broken-promise)\<close>; then the back-pointers are cleared. Without a future but
  with a continuation task (the comment on \<open>broken_promise\<close> in the header): a pending
  cell of the task becomes broken-promise and the task is scheduled.\<close>

definition check_during_destruction :: "nat \<Rightarrow> 'v world \<Rightarrow> 'v world option" where
  "check_during_destruction p w = do {
     pr \<leftarrow> promises w p;
     case pr_future pr of
       Some f \<Rightarrow> do {
         fu \<leftarrow> futures w f;
         let s = (if fut_state fu = st_future then set_to_broken_promise (fut_state fu)
                  else fut_state fu)
         in Some (w\<lparr>futures := (futures w)(f \<mapsto> \<lparr>fut_promise = None, fut_state = s\<rparr>),
                    promises := (promises w)(p \<mapsto> pr\<lparr>pr_future := None, pr_state := None\<rparr>)\<rparr>) }
     | None \<Rightarrow>
        (case pr_task pr of
           None \<Rightarrow> Some w
         | Some t \<Rightarrow> do {
             ta \<leftarrow> tasks w t;
             let s = (if task_state ta = st_future then set_to_broken_promise (task_state ta)
                      else task_state ta)
             in Some (schedule t
                  (w\<lparr>tasks := (tasks w)(t \<mapsto> ta\<lparr>task_state := s\<rparr>),
                     promises := (promises w)(p \<mapsto> pr\<lparr>pr_state := None, pr_task := None\<rparr>)\<rparr>)) }) }"

text \<open>\<open>~promise()\<close>: \<open>check_during_destruction\<close>, then the object is gone.\<close>

definition promise_dtor :: "nat \<Rightarrow> 'v world \<Rightarrow> 'v world option" where
  "promise_dtor p w = do {
     w1 \<leftarrow> check_during_destruction p w;
     Some (w1\<lparr>promises := (promises w1)(p := None)\<rparr>) }"

text \<open>\<open>promise::operator=(promise&&)\<close>: destroy, then move-construct in place.\<close>

definition promise_move_assign :: "nat \<Rightarrow> nat \<Rightarrow> 'v world \<Rightarrow> 'v world option" where
  "promise_move_assign this x w = do {
     w1 \<leftarrow> promise_dtor this w;
     promise_move_ctor this x w1 }"

text \<open>\<open>promise::schedule(std::unique_ptr<continuation_base<T...>> callback)\<close>.\<close>

definition promise_schedule_callback :: "nat \<Rightarrow> nat \<Rightarrow> 'v world \<Rightarrow> 'v world option" where
  "promise_schedule_callback p t w = do {
     pr \<leftarrow> promises w p;
     Some (w\<lparr>promises := (promises w)(p \<mapsto> pr\<lparr>pr_state := Some (in_task t), pr_task := Some t\<rparr>)\<rparr>) }"

section \<open>future\<close>

text \<open>\<open>future(ready_future_marker, ...)\<close> and \<open>future(exception_future_marker, ex)\<close>, as
  used by \<open>make_ready_future\<close> and \<open>make_exception_future\<close>, and
  \<open>future(future_state&&)\<close>: a future without promise around the given cell.\<close>

definition future_from_state :: "'v future_state \<Rightarrow> 'v world \<Rightarrow> nat \<times> 'v world" where
  "future_from_state s w = (let f = next_id w in
     (f, w\<lparr>futures := (futures w)(f \<mapsto> \<lparr>fut_promise = None, fut_state = s\<rparr>),
          next_id := Suc f\<rparr>))"

definition make_ready_future :: "'v list \<Rightarrow> 'v world \<Rightarrow> nat \<times> 'v world" where
  "make_ready_future v w = future_from_state (st_result v) w"

definition make_exception_future :: "exn \<Rightarrow> 'v world \<Rightarrow> nat \<times> 'v world" where
  "make_exception_future ex w = future_from_state (st_exception ex) w"

text \<open>\<open>future(future&& x)\<close>: \<open>future_base(std::move(x), &_state)\<close> detaches \<open>x\<close> and
  redirects the promise to the new future; then the cell is moved, leaving the cell of
  \<open>x\<close> invalid.\<close>

definition future_move :: "nat \<Rightarrow> 'v world \<Rightarrow> (nat \<times> 'v world) option" where
  "future_move x w = do {
     fx \<leftarrow> futures w x;
     let f = next_id w;
     w1 \<leftarrow> (case fut_promise fx of
              None \<Rightarrow> Some w
            | Some p \<Rightarrow> do {
                (p1, wa) \<leftarrow> detach_promise x w;
                pr \<leftarrow> promises wa p1;
                Some (wa\<lparr>promises := (promises wa)(p1 \<mapsto>
                        pr\<lparr>pr_future := Some f, pr_state := Some (in_future f)\<rparr>)\<rparr>) });
     fx1 \<leftarrow> futures w1 x;
     Some (f, w1\<lparr>futures := (futures w1)(x \<mapsto> fx1\<lparr>fut_state := st_invalid\<rparr>,
                     f \<mapsto> \<lparr>fut_promise = fut_promise fx, fut_state = fut_state fx\<rparr>),
                next_id := Suc f\<rparr>) }"

text \<open>\<open>~future()\<close>: a failed cell is reported; then \<open>~future_base()\<close> detaches a linked
  promise; the object is gone.\<close>

definition future_dtor :: "nat \<Rightarrow> 'v world \<Rightarrow> 'v world option" where
  "future_dtor f w = do {
     fu \<leftarrow> futures w f;
     let w1 = (case fut_state fu of
                 st_exception e \<Rightarrow> report_failed_future e w
               | st_result v \<Rightarrow> w | st_invalid \<Rightarrow> w | st_future \<Rightarrow> w);
     w2 \<leftarrow> (if fut_promise fu \<noteq> None then map_option snd (detach_promise f w1) else Some w1);
     Some (w2\<lparr>futures := (futures w2)(f := None)\<rparr>) }"

text \<open>\<open>future::get_available_state\<close>: detaches a linked promise and moves the cell out.\<close>

definition get_available_state :: "nat \<Rightarrow> 'v world \<Rightarrow> ('v future_state \<times> 'v world) option" where
  "get_available_state f w = do {
     fu \<leftarrow> futures w f;
     w1 \<leftarrow> (if fut_promise fu \<noteq> None then map_option snd (detach_promise f w) else Some w);
     fu1 \<leftarrow> futures w1 f;
     Some (fut_state fu1, w1\<lparr>futures := (futures w1)(f \<mapsto> fu1\<lparr>fut_state := st_invalid\<rparr>)\<rparr>) }"

text \<open>\<open>future::abandoned\<close>.\<close>

definition abandoned :: "nat \<Rightarrow> 'v world \<Rightarrow> 'v world option" where
  "abandoned f w = do {
     fu \<leftarrow> futures w f;
     Some (w\<lparr>futures := (futures w)(f \<mapsto> fu\<lparr>fut_state := set_to_broken_promise (fut_state fu)\<rparr>)\<rparr>) }"

text \<open>\<open>future::ignore_ready_future\<close>.\<close>

definition ignore_ready_future :: "nat \<Rightarrow> 'v world \<Rightarrow> 'v world option" where
  "ignore_ready_future f w = do {
     fu \<leftarrow> futures w f;
     s \<leftarrow> fs_ignore (fut_state fu);
     Some (w\<lparr>futures := (futures w)(f \<mapsto> fu\<lparr>fut_state := s\<rparr>)\<rparr>) }"


text \<open>
  \<open>future::do_wait\<close>. Without a promise the future is abandoned and the call returns
  (\<open>False\<close>). Otherwise the current thread is asserted, a \<open>thread_wake_task\<close> is built
  and handed to the detached promise, and the thread is switched out (\<open>True\<close>): the caller
  continues only after the wake task has switched the thread in again.
\<close>

definition do_wait :: "nat \<Rightarrow> 'v world \<Rightarrow> (bool \<times> 'v world) option" where
  "do_wait f w = do {
     fu \<leftarrow> futures w f;
     case fut_promise fu of
       None \<Rightarrow> do {
         w1 \<leftarrow> abandoned f w;
         Some (False, w1) }
     | Some p \<Rightarrow> do {
         th \<leftarrow> current_thread w;
         let t = next_id w;
         let w1 = w\<lparr>tasks := (tasks w)(t \<mapsto>
                      \<lparr>task_state = st_future, task_func = thread_wake_task th f\<rparr>),
                    next_id := Suc t\<rparr>;
         (p1, w2) \<leftarrow> detach_promise f w1;
         w3 \<leftarrow> promise_schedule_callback p1 t w2;
         Some (True, w3) } }"

text \<open>The result of a call that may block the calling thread.\<close>

datatype 'a wait_result = completed 'a | suspended

text \<open>\<open>future::wait\<close>.\<close>

definition future_wait :: "nat \<Rightarrow> 'v world \<Rightarrow> (unit wait_result \<times> 'v world) option" where
  "future_wait f w = do {
     fu \<leftarrow> futures w f;
     if \<not> fs_available (fut_state fu) then do {
       (sw, w1) \<leftarrow> do_wait f w;
       Some (if sw then suspended else completed (), w1) }
     else Some (completed (), w) }"

text \<open>\<open>future::get\<close>: the part after the wait, \<open>get_available_state().get()\<close>, is
  \<open>future_get_resume\<close>; it is also where a thread that was switched out continues.\<close>

definition future_get_resume :: "nat \<Rightarrow> 'v world \<Rightarrow> ((exn + 'v list) \<times> 'v world) option" where
  "future_get_resume f w = do {
     (s, w1) \<leftarrow> get_available_state f w;
     (r, s1) \<leftarrow> fs_get s;
     Some (r, w1) }"

definition future_get :: "nat \<Rightarrow> 'v world \<Rightarrow> ((exn + 'v list) wait_result \<times> 'v world) option" where
  "future_get f w = do {
     fu \<leftarrow> futures w f;
     (sw, w1) \<leftarrow> (if \<not> fs_available (fut_state fu) then do_wait f w else Some (False, w));
     if sw then Some (suspended, w1)
     else do {
       (r, w2) \<leftarrow> future_get_resume f w1;
       Some (completed r, w2) } }"

text \<open>\<open>future::get_exception\<close>.\<close>

definition future_get_exception :: "nat \<Rightarrow> 'v world \<Rightarrow> (exn \<times> 'v world) option" where
  "future_get_exception f w = do {
     (s, w1) \<leftarrow> get_available_state f w;
     (e, s1) \<leftarrow> fs_get_exception s;
     Some (e, w1) }"

text \<open>\<open>future::get0\<close>: \<open>future_state::get0(get())\<close>.\<close>

definition future_get0 :: "nat \<Rightarrow> 'v world \<Rightarrow> ((exn + 'v option) wait_result \<times> 'v world) option" where
  "future_get0 f w = do {
     (r, w1) \<leftarrow> future_get f w;
     Some (case r of
             suspended \<Rightarrow> suspended
           | completed (Inl e) \<Rightarrow> completed (Inl e)
           | completed (Inr v) \<Rightarrow> completed (Inr (get0 v)), w1) }"

section \<open>The lifter: futurize\<close>

text \<open>Modelled from the spec: \<open>::seastar::apply\<close> (apply.hh) is not in the header; it
  calls the callable with the elements of the tuple as its arguments.\<close>

definition seastar_apply :: "string \<Rightarrow> ('v list \<Rightarrow> exn + 'r) \<Rightarrow> 'v list \<Rightarrow> 'v world \<Rightarrow> (exn + 'r) \<times> 'v world" where
  "seastar_apply n body args w = invoke n body args w"

text \<open>The future a future-returning callable hands back.\<close>

definition returned_future :: "'v fut_result \<Rightarrow> 'v world \<Rightarrow> nat \<times> 'v world" where
  "returned_future r w = (case r of
       ready_fut s \<Rightarrow> future_from_state s w
     | pending_fut \<Rightarrow>
         let p = next_id w; f = Suc p in
         (f, w\<lparr>promises := (promises w)(p \<mapsto>
                 \<lparr>pr_future = Some f, pr_state = Some (in_future f), pr_task = None,
                  pr_local_state = st_invalid\<rparr>),
              futures := (futures w)(f \<mapsto> \<lparr>fut_promise = Some p, fut_state = st_future\<rparr>),
              next_id := Suc f\<rparr>))"

text \<open>\<open>futurize<T>::apply\<close>, tuple form and argument-list form: \<open>convert\<close> of the returned
  value is \<open>make_ready_future<T>\<close>; the handler makes an exception future of the
  current exception.\<close>

definition futurize_T_apply_tuple :: "string \<Rightarrow> ('v list \<Rightarrow> exn + 'v) \<Rightarrow> 'v list \<Rightarrow> 'v world \<Rightarrow> nat \<times> 'v world" where
  "futurize_T_apply_tuple n body args w = (case seastar_apply n body args w of
       (Inr r, w1) \<Rightarrow> make_ready_future [r] w1
     | (Inl x, w1) \<Rightarrow> make_exception_future x w1)"

definition futurize_T_apply :: "string \<Rightarrow> ('v list \<Rightarrow> exn + 'v) \<Rightarrow> 'v list \<Rightarrow> 'v world \<Rightarrow> nat \<times> 'v world" where
  "futurize_T_apply n body args w = (case invoke n body args w of
       (Inr r, w1) \<Rightarrow> make_ready_future [r] w1
     | (Inl x, w1) \<Rightarrow> make_exception_future x w1)"

text \<open>\<open>do_void_futurize_helper<void>\<close>: \<open>apply\<close> and \<open>apply_tuple\<close>.\<close>

definition void_helper_void_apply :: "string \<Rightarrow> ('v list \<Rightarrow> exn + unit) \<Rightarrow> 'v list \<Rightarrow> 'v world \<Rightarrow> nat \<times> 'v world" where
  "void_helper_void_apply n body args w = (case invoke n body args w of
       (Inr r, w1) \<Rightarrow> make_ready_future [] w1
     | (Inl x, w1) \<Rightarrow> make_exception_future x w1)"

definition void_helper_void_apply_tuple :: "string \<Rightarrow> ('v list \<Rightarrow> exn + unit) \<Rightarrow> 'v list \<Rightarrow> 'v world \<Rightarrow> nat \<times> 'v world" where
  "void_helper_void_apply_tuple n body args w = (case seastar_apply n body args w of
       (Inr r, w1) \<Rightarrow> make_ready_future [] w1
     | (Inl x, w1) \<Rightarrow> make_exception_future x w1)"

text \<open>\<open>do_void_futurize_helper<future<>>\<close>: \<open>apply\<close> and \<open>apply_tuple\<close>.\<close>

definition void_helper_future_apply :: "string \<Rightarrow> ('v list \<Rightarrow> exn + 'v fut_result) \<Rightarrow> 'v list \<Rightarrow> 'v world \<Rightarrow> nat \<times> 'v world" where
  "void_helper_future_apply n body args w = (case invoke n body args w of
       (Inr r, w1) \<Rightarrow> returned_future r w1
     | (Inl x, w1) \<Rightarrow> make_exception_future x w1)"

definition void_helper_future_apply_tuple :: "string \<Rightarrow> ('v list \<Rightarrow> exn + 'v fut_result) \<Rightarrow> 'v list \<Rightarrow> 'v world \<Rightarrow> nat \<times> 'v world" where
  "void_helper_future_apply_tuple n body args w = (case seastar_apply n body args w of
       (Inr r, w1) \<Rightarrow> returned_future r w1
     | (Inl x, w1) \<Rightarrow> make_exception_future x w1)"

text \<open>\<open>futurize<void>::apply\<close>, both forms: \<open>void_futurize_helper\<close> selects the helper by
  the callable's return type, \<open>void\<close> or \<open>future<>\<close>.\<close>

datatype 'v void_func =
    returns_void string "'v list \<Rightarrow> exn + unit"
  | returns_future string "'v list \<Rightarrow> exn + 'v fut_result"

definition futurize_void_apply_tuple :: "'v void_func \<Rightarrow> 'v list \<Rightarrow> 'v world \<Rightarrow> nat \<times> 'v world" where
  "futurize_void_apply_tuple func args w = (case func of
       returns_void n body \<Rightarrow> void_helper_void_apply_tuple n body args w
     | returns_future n body \<Rightarrow> void_helper_future_apply_tuple n body args w)"

definition futurize_void_apply :: "'v void_func \<Rightarrow> 'v list \<Rightarrow> 'v world \<Rightarrow> nat \<times> 'v world" where
  "futurize_void_apply func args w = (case func of
       returns_void n body \<Rightarrow> void_helper_void_apply n body args w
     | returns_future n body \<Rightarrow> void_helper_future_apply n body args w)"

text \<open>\<open>futurize<future<Args...>>::apply\<close>, both forms.\<close>

definition futurize_future_apply_tuple :: "string \<Rightarrow> ('v list \<Rightarrow> exn + 'v fut_result) \<Rightarrow> 'v list \<Rightarrow> 'v world \<Rightarrow> nat \<times> 'v world" where
  "futurize_future_apply_tuple n body args w = (case seastar_apply n body args w of
       (Inr r, w1) \<Rightarrow> returned_future r w1
     | (Inl x, w1) \<Rightarrow> make_exception_future x w1)"

definition futurize_future_apply :: "string \<Rightarrow> ('v list \<Rightarrow> exn + 'v fut_result) \<Rightarrow> 'v list \<Rightarrow> 'v world \<Rightarrow> nat \<times> 'v world" where
  "futurize_future_apply n body args w = (case invoke n body args w of
       (Inr r, w1) \<Rightarrow> returned_future r w1
     | (Inl x, w1) \<Rightarrow> make_exception_future x w1)"

text \<open>The \<open>futurator\<close> of \<open>then_impl\<close>: \<open>futurize\<close> of the callable's return type, applied
  in the tuple form; and \<open>futurize_apply\<close>, its free-function counterpart in the
  argument-list form.\<close>

definition futurator_apply_tuple :: "'v func \<Rightarrow> 'v list \<Rightarrow> 'v world \<Rightarrow> nat \<times> 'v world" where
  "futurator_apply_tuple func args w = (case func of
       func_plain n body \<Rightarrow> futurize_T_apply_tuple n body args w
     | func_void n body \<Rightarrow> futurize_void_apply_tuple (returns_void n body) args w
     | func_future n body \<Rightarrow> futurize_future_apply_tuple n body args w)"

definition futurize_apply :: "'v func \<Rightarrow> 'v list \<Rightarrow> 'v world \<Rightarrow> nat \<times> 'v world" where
  "futurize_apply func args w = (case func of
       func_plain n body \<Rightarrow> futurize_T_apply n body args w
     | func_void n body \<Rightarrow> futurize_void_apply (returns_void n body) args w
     | func_future n body \<Rightarrow> futurize_future_apply n body args w)"


section \<open>Continuations: schedule, forward_to, then\<close>

text \<open>Moving and destroying the callables of \<open>then_wrapped\<close> and the lambdas: the
  captured promise and future are moved, respectively destroyed, with them. Captures are
  destroyed in reverse order.\<close>

definition wfunc_move :: "'v wfunc \<Rightarrow> 'v world \<Rightarrow> ('v wfunc \<times> 'v world) option" where
  "wfunc_move wfn w = (case wfn of
       finally_lambda r \<Rightarrow> do {
         (r1, w1) \<leftarrow> future_move r w;
         Some (finally_lambda r1, w1) }
     | finally_body_false f \<Rightarrow> Some (wfn, w)
     | finally_body_true f \<Rightarrow> Some (wfn, w))"

definition wfunc_dtor :: "'v wfunc \<Rightarrow> 'v world \<Rightarrow> 'v world option" where
  "wfunc_dtor wfn w = (case wfn of
       finally_lambda r \<Rightarrow> future_dtor r w
     | finally_body_false f \<Rightarrow> Some w
     | finally_body_true f \<Rightarrow> Some w)"

definition closure_move :: "'v closure \<Rightarrow> 'v world \<Rightarrow> ('v closure \<times> 'v world) option" where
  "closure_move c w = (case c of
       then_lambda p f \<Rightarrow> do {
         (p1, w1) \<leftarrow> promise_move p w;
         Some (then_lambda p1 f, w1) }
     | then_wrapped_lambda p wfn \<Rightarrow> do {
         (p1, w1) \<leftarrow> promise_move p w;
         (wfn1, w2) \<leftarrow> wfunc_move wfn w1;
         Some (then_wrapped_lambda p1 wfn1, w2) })"

definition closure_dtor :: "'v closure \<Rightarrow> 'v world \<Rightarrow> 'v world option" where
  "closure_dtor c w = (case c of
       then_lambda p f \<Rightarrow> promise_dtor p w
     | then_wrapped_lambda p wfn \<Rightarrow> do {
         w1 \<leftarrow> wfunc_dtor wfn w;
         promise_dtor p w1 })"

text \<open>\<open>promise::schedule(Func&& func)\<close>: a new continuation around the moved lambda, with
  a default (pending) cell; the state pointer and the task pointer are set to it.\<close>

definition promise_schedule_func :: "nat \<Rightarrow> 'v closure \<Rightarrow> 'v world \<Rightarrow> 'v world option" where
  "promise_schedule_func p c w = do {
     let t = next_id w;
     (c1, w1) \<leftarrow> closure_move c (w\<lparr>next_id := Suc t\<rparr>);
     let w2 = w1\<lparr>tasks := (tasks w1)(t \<mapsto> \<lparr>task_state = st_future, task_func = continuation c1\<rparr>)\<rparr>;
     promise_schedule_callback p t w2 }"

text \<open>\<open>future::schedule(Func&& func)\<close>: an available or promise-less future (abandoned
  first when it is not available) hands its cell to a new continuation that goes straight
  to the reactor; otherwise the continuation is left with the detached promise.\<close>

definition future_schedule :: "nat \<Rightarrow> 'v closure \<Rightarrow> 'v world \<Rightarrow> 'v world option" where
  "future_schedule this c w = do {
     fu \<leftarrow> futures w this;
     if fs_available (fut_state fu) \<or> fut_promise fu = None then do {
       w1 \<leftarrow> (if \<not> fs_available (fut_state fu) \<and> fut_promise fu = None
               then abandoned this w else Some w);
       fu1 \<leftarrow> futures w1 this;
       let t = next_id w1;
       let w2 = w1\<lparr>futures := (futures w1)(this \<mapsto> fu1\<lparr>fut_state := st_invalid\<rparr>),
                   next_id := Suc t\<rparr>;
       (c1, w3) \<leftarrow> closure_move c w2;
       Some (schedule t (w3\<lparr>tasks := (tasks w3)(t \<mapsto>
               \<lparr>task_state = fut_state fu1, task_func = continuation c1\<rparr>)\<rparr>)) }
     else do {
       (p, w1) \<leftarrow> detach_promise this w;
       promise_schedule_func p c w1 } }"

text \<open>\<open>future::forward_to\<close>.\<close>

definition forward_to :: "nat \<Rightarrow> nat \<Rightarrow> 'v world \<Rightarrow> 'v world option" where
  "forward_to this pr w = do {
     fu \<leftarrow> futures w this;
     if fs_available (fut_state fu) then set_urgent_state pr (in_future this) w
     else do {
       (p, w1) \<leftarrow> detach_promise this w;
       promise_move_assign p pr w1 } }"

text \<open>\<open>future::then_impl\<close> (\<open>then\<close> calls it directly). The local promise \<open>pr\<close>, the
  lambda built from it and the returned future \<open>fut\<close> are objects of their own; the
  lambda and \<open>pr\<close> are destroyed before returning. Allocation always succeeds here (in
  the source a failed allocation inside \<open>schedule\<close> terminates the program).\<close>

definition then_impl :: "'v func \<Rightarrow> nat \<Rightarrow> 'v world \<Rightarrow> (nat \<times> 'v world) option" where
  "then_impl func this w = do {
     fu \<leftarrow> futures w this;
     if fs_available (fut_state fu) \<and> \<not> need_preempt w then
       if fs_failed (fut_state fu) then do {
         (s, w1) \<leftarrow> get_available_state this w;
         (e, s1) \<leftarrow> fs_get_exception s;
         Some (make_exception_future e w1) }
       else do {
         (s, w1) \<leftarrow> get_available_state this w;
         v \<leftarrow> fs_get_value s;
         Some (futurator_apply_tuple func v w1) }
     else do {
       let (pr, w1) = promise_ctor w;
       (fut, w2) \<leftarrow> get_future pr w1;
       (c, w3) \<leftarrow> closure_move (then_lambda pr func) w2;
       w4 \<leftarrow> future_schedule this c w3;
       w5 \<leftarrow> closure_dtor c w4;
       w6 \<leftarrow> promise_dtor pr w5;
       Some (fut, w6) } }"


section \<open>then_wrapped and finally\<close>

text \<open>\<open>future::rethrow_with_nested\<close>, called inside a handler; \<open>cur\<close> is the exception
  being handled there. On a future that has not failed it returns an exception future of
  \<open>cur\<close>. Otherwise \<open>f_ex\<close> captures \<open>cur\<close>, \<open>get()\<close> rethrows the future's own
  failure, and in that handler \<open>std::throw_with_nested(f_ex)\<close> throws (\<open>Inl\<close>).\<close>

definition rethrow_with_nested :: "nat \<Rightarrow> exn \<Rightarrow> 'v world \<Rightarrow> ((exn + nat) \<times> 'v world) option" where
  "rethrow_with_nested this cur w = do {
     fu \<leftarrow> futures w this;
     if \<not> fs_failed (fut_state fu) then
       let (f, w1) = make_exception_future cur w in Some (Inr f, w1)
     else do {
       let f_ex = nested_exception (Some cur);
       (r, w1) \<leftarrow> future_get this w;
       case r of
         completed (Inl e) \<Rightarrow> Some (Inl (throw_with_nested f_ex (Some e)), w1)
       | completed (Inr v) \<Rightarrow> None
       | suspended \<Rightarrow> None } }"

text \<open>The lambda inside \<open>finally_body\<close> for a future-returning callable: \<open>r\<close> is the
  captured \<open>result\<close>, the parameter \<open>f_res\<close> is taken by value.\<close>

definition call_finally_lambda :: "nat \<Rightarrow> nat \<Rightarrow> 'v world \<Rightarrow> ((exn + nat) \<times> 'v world) option" where
  "call_finally_lambda r arg w = do {
     (f_res, w1) \<leftarrow> future_move arg w;
     ff \<leftarrow> futures w1 f_res;
     (res, w2) \<leftarrow> (if \<not> fs_failed (fut_state ff) then do {
                       (r1, wa) \<leftarrow> future_move r w1;
                       Some (Inr r1, wa) }
                     else do {
                       (g, wa) \<leftarrow> future_get f_res w1;
                       case g of
                         completed (Inl e) \<Rightarrow> rethrow_with_nested r e wa
                       | completed (Inr v) \<Rightarrow> None
                       | suspended \<Rightarrow> None });
     w3 \<leftarrow> future_dtor f_res w2;
     Some (res, w3) }"

text \<open>\<open>futurize<future<T...>>::apply(func, future)\<close> around a callable of
  \<open>then_wrapped\<close>: what the callable throws becomes an exception future.\<close>

definition wfunc_apply :: "(nat \<Rightarrow> 'v world \<Rightarrow> ((exn + nat) \<times> 'v world) option) \<Rightarrow> nat \<Rightarrow> 'v world \<Rightarrow> (nat \<times> 'v world) option" where
  "wfunc_apply call arg w = do {
     (r, w1) \<leftarrow> call arg w;
     case r of
       Inr f \<Rightarrow> Some (f, w1)
     | Inl x \<Rightarrow> Some (make_exception_future x w1) }"

text \<open>\<open>future::then_wrapped_impl\<close> (\<open>then_wrapped\<close> calls it directly). \<open>call\<close> is the
  call operator of the callable \<open>wfn\<close>. The argument \<open>future(get_available_state())\<close>
  is a temporary, destroyed after the call.\<close>

definition then_wrapped_impl_with :: "(nat \<Rightarrow> 'v world \<Rightarrow> ((exn + nat) \<times> 'v world) option) \<Rightarrow> 'v wfunc \<Rightarrow> nat \<Rightarrow> 'v world \<Rightarrow> (nat \<times> 'v world) option" where
  "then_wrapped_impl_with call wfn this w = do {
     fu \<leftarrow> futures w this;
     if fs_available (fut_state fu) \<and> \<not> need_preempt w then do {
       (s, w1) \<leftarrow> get_available_state this w;
       let (arg, w2) = future_from_state s w1;
       (res, w3) \<leftarrow> wfunc_apply call arg w2;
       w4 \<leftarrow> future_dtor arg w3;
       Some (res, w4) }
     else do {
       let (pr, w1) = promise_ctor w;
       (fut, w2) \<leftarrow> get_future pr w1;
       (c, w3) \<leftarrow> closure_move (then_wrapped_lambda pr wfn) w2;
       w4 \<leftarrow> future_schedule this c w3;
       w5 \<leftarrow> closure_dtor c w4;
       w6 \<leftarrow> promise_dtor pr w5;
       Some (fut, w6) } }"

text \<open>\<open>finally_body<Func, false>::operator()\<close>: \<open>_func()\<close> is called and its value
  dropped; \<open>result\<close> is moved out on success.\<close>

definition call_finally_body_false :: "'v func \<Rightarrow> nat \<Rightarrow> 'v world \<Rightarrow> ((exn + nat) \<times> 'v world) option" where
  "call_finally_body_false func result w = (case func of
       func_future n body \<Rightarrow> None
     | func_plain n body \<Rightarrow>
         (case invoke n body [] w of
            (Inr v, w1) \<Rightarrow> do {
              (f, w2) \<leftarrow> future_move result w1;
              Some (Inr f, w2) }
          | (Inl x, w1) \<Rightarrow> rethrow_with_nested result x w1)
     | func_void n body \<Rightarrow>
         (case invoke n body [] w of
            (Inr v, w1) \<Rightarrow> do {
              (f, w2) \<leftarrow> future_move result w1;
              Some (Inr f, w2) }
          | (Inl x, w1) \<Rightarrow> rethrow_with_nested result x w1))"

text \<open>\<open>finally_body<Func, true>::operator()\<close>: \<open>futurator::apply(_func)\<close>, then
  \<open>then_wrapped\<close> of the lambda that captured \<open>result\<close> by move; the lambda and the
  future returned by \<open>_func\<close> are temporaries.\<close>

definition call_finally_body_true :: "'v func \<Rightarrow> nat \<Rightarrow> 'v world \<Rightarrow> ((exn + nat) \<times> 'v world) option" where
  "call_finally_body_true func result w = (case func of
       func_future n body \<Rightarrow> do {
         let (ff, w1) = futurize_future_apply n body [] w;
         (r1, w2) \<leftarrow> future_move result w1;
         (res, w3) \<leftarrow> then_wrapped_impl_with (call_finally_lambda r1) (finally_lambda r1) ff w2;
         w4 \<leftarrow> future_dtor r1 w3;
         w5 \<leftarrow> future_dtor ff w4;
         Some (Inr res, w5) }
     | func_plain n body \<Rightarrow> None
     | func_void n body \<Rightarrow> None)"

definition call_wfunc :: "'v wfunc \<Rightarrow> nat \<Rightarrow> 'v world \<Rightarrow> ((exn + nat) \<times> 'v world) option" where
  "call_wfunc wfn arg w = (case wfn of
       finally_lambda r \<Rightarrow> call_finally_lambda r arg w
     | finally_body_false f \<Rightarrow> call_finally_body_false f arg w
     | finally_body_true f \<Rightarrow> call_finally_body_true f arg w)"

definition then_wrapped_impl :: "'v wfunc \<Rightarrow> nat \<Rightarrow> 'v world \<Rightarrow> (nat \<times> 'v world) option" where
  "then_wrapped_impl wfn this w = then_wrapped_impl_with (call_wfunc wfn) wfn this w"

text \<open>\<open>future::finally\<close>: \<open>then_wrapped\<close> of the \<open>finally_body\<close> selected by whether the
  callable returns a future.\<close>

definition future_finally :: "'v func \<Rightarrow> nat \<Rightarrow> 'v world \<Rightarrow> (nat \<times> 'v world) option" where
  "future_finally func this w = (case func of
       func_future n body \<Rightarrow> then_wrapped_impl (finally_body_true func) this w
     | func_plain n body \<Rightarrow> then_wrapped_impl (finally_body_false func) this w
     | func_void n body \<Rightarrow> then_wrapped_impl (finally_body_false func) this w)"

section \<open>Running a task\<close>

text \<open>The bodies of the two lambdas, run on the cell \<open>s\<close> of their task.\<close>

definition run_closure :: "'v closure \<Rightarrow> nat \<Rightarrow> 'v world \<Rightarrow> 'v world option" where
  "run_closure c t w = do {
     ta \<leftarrow> tasks w t;
     case c of
       then_lambda pr func \<Rightarrow>
         if fs_failed (task_state ta) then do {
           (e, s1) \<leftarrow> fs_get_exception (task_state ta);
           set_exception pr e (w\<lparr>tasks := (tasks w)(t \<mapsto> ta\<lparr>task_state := s1\<rparr>)\<rparr>) }
         else do {
           v \<leftarrow> fs_get_value (task_state ta);
           let (r, w1) = futurator_apply_tuple func v w;
           w2 \<leftarrow> forward_to r pr w1;
           future_dtor r w2 }
     | then_wrapped_lambda pr wfn \<Rightarrow> do {
         let (arg, w1) = future_from_state (task_state ta)
                           (w\<lparr>tasks := (tasks w)(t \<mapsto> ta\<lparr>task_state := st_invalid\<rparr>)\<rparr>);
         (r, w2) \<leftarrow> wfunc_apply (call_wfunc wfn) arg w1;
         w3 \<leftarrow> forward_to r pr w2;
         w4 \<leftarrow> future_dtor r w3;
         future_dtor arg w4 } }"

text \<open>\<open>continuation::run_and_dispose\<close> (the lambda runs, then \<open>delete this\<close>) and
  \<open>thread_wake_task::run_and_dispose\<close> (the cell moves into the waiting future, the
  thread is switched in, nothing is deleted).\<close>

definition run_and_dispose :: "nat \<Rightarrow> 'v world \<Rightarrow> 'v world option" where
  "run_and_dispose t w = do {
     ta \<leftarrow> tasks w t;
     case task_func ta of
       continuation c \<Rightarrow> do {
         w1 \<leftarrow> run_closure c t w;
         w2 \<leftarrow> closure_dtor c w1;
         Some (w2\<lparr>tasks := (tasks w2)(t := None)\<rparr>) }
     | thread_wake_task th f \<Rightarrow> do {
         fu \<leftarrow> futures w f;
         Some (switch_in th
           (w\<lparr>futures := (futures w)(f \<mapsto> fu\<lparr>fut_state := task_state ta\<rparr>),
              tasks := (tasks w)(t \<mapsto> ta\<lparr>task_state := st_invalid\<rparr>)\<rparr>)) } }"

text \<open>Modelled from the spec: the reactor is not in the header; it takes the task at the
  head of its queue and runs it.\<close>

definition reactor_step :: "'v world \<Rightarrow> 'v world option" where
  "reactor_step w = (case run_queue w of
       [] \<Rightarrow> None
     | t # q \<Rightarrow> run_and_dispose t (w\<lparr>run_queue := q\<rparr>))"


section \<open>Auxiliary notions for the statements\<close>

text \<open>The world before any object exists.\<close>

definition empty_world :: "'v world" where
  "empty_world = \<lparr>promises = Map.empty, futures = Map.empty, tasks = Map.empty, run_queue = [],
     need_preempt = False, current_thread = None, switched_in = [], failed_reports = [],
     invoked = [], next_id = 0\<rparr>"

text \<open>The returned future is available, without promise, and failed with \<open>x\<close>.\<close>

definition is_failed_future :: "exn \<Rightarrow> nat \<times> 'v world \<Rightarrow> bool" where
  "is_failed_future x r = (case r of (f, w1) \<Rightarrow>
     futures w1 f = Some \<lparr>fut_promise = None, fut_state = st_exception x\<rparr>)"

text \<open>Addresses from \<open>next_id\<close> on are unused: the allocator hands out fresh objects.\<close>

definition fresh_ids :: "'v world \<Rightarrow> bool" where
  "fresh_ids w = (\<forall>i. next_id w \<le> i \<longrightarrow>
     promises w i = None \<and> futures w i = None \<and> tasks w i = None)"

text \<open>The name under which calls of a callable are logged.\<close>

definition func_name :: "'v func \<Rightarrow> string" where
  "func_name func = (case func of func_plain n b \<Rightarrow> n | func_void n b \<Rightarrow> n | func_future n b \<Rightarrow> n)"

text \<open>The expression \<open>make_ready_future<T>(v).then(f).get()\<close> for a callable returning a
  plain value: the outcome of \<open>get\<close>, the future returned by \<open>then\<close> and the world.\<close>

definition ready_then_get :: "string \<Rightarrow> ('v list \<Rightarrow> exn + 'v) \<Rightarrow> 'v list \<Rightarrow> 'v world \<Rightarrow> ((exn + 'v list) wait_result \<times> nat \<times> 'v world) option" where
  "ready_then_get n body v w = (let (f, w1) = make_ready_future v w in do {
     (g, w2) \<leftarrow> then_impl (func_plain n body) f w1;
     (r, w3) \<leftarrow> future_get g w2;
     Some (r, g, w3) })"

text \<open>The state of the future a call returned, if it returned one.\<close>

definition result_state :: "(nat \<times> 'v world) option \<Rightarrow> 'v future_state option" where
  "result_state r = (case r of None \<Rightarrow> None | Some (g, w) \<Rightarrow> map_option fut_state (futures w g))"

text \<open>Example callables: one that adds one to its argument, one that raises \<open>fin\<close>,
  one that returns a future failed with \<open>fin\<close>.\<close>

definition plus_one :: "nat list \<Rightarrow> exn + nat" where
  "plus_one a = Inr (a ! 0 + 1)"

definition raise_fin :: "nat list \<Rightarrow> exn + unit" where
  "raise_fin a = Inl (user_exception ''fin'')"

definition return_failed_fin :: "nat list \<Rightarrow> exn + nat fut_result" where
  "return_failed_fin a = Inr (ready_fut (st_exception (user_exception ''fin'')))"

text \<open>Example worlds: a promise 0 linked to its pending future 1; a future 0 failed with
  an I/O error; a future 0 holding the value 5; the latter next to a promise 1 whose state
  pointer is null, and next to a promise 1 that waits with a task 2.\<close>

definition pending_pair :: "nat world" where
  "pending_pair = empty_world\<lparr>
     promises := [0 \<mapsto> \<lparr>pr_future = Some 1, pr_state = Some (in_future 1), pr_task = None,
                        pr_local_state = st_invalid\<rparr>],
     futures := [1 \<mapsto> \<lparr>fut_promise = Some 0, fut_state = st_future\<rparr>],
     next_id := 2\<rparr>"

definition failed_future_world :: "nat world" where
  "failed_future_world = empty_world\<lparr>
     futures := [0 \<mapsto> \<lparr>fut_promise = None, fut_state = st_exception (user_exception ''io'')\<rparr>],
     next_id := 1\<rparr>"

definition ready_future_world :: "nat world" where
  "ready_future_world = empty_world\<lparr>
     futures := [0 \<mapsto> \<lparr>fut_promise = None, fut_state = st_result [5]\<rparr>],
     next_id := 1\<rparr>"

definition dropped_sink_world :: "nat world" where
  "dropped_sink_world = empty_world\<lparr>
     futures := [0 \<mapsto> \<lparr>fut_promise = None, fut_state = st_result [5]\<rparr>],
     promises := [1 \<mapsto> \<lparr>pr_future = None, pr_state = None, pr_task = None,
                        pr_local_state = st_invalid\<rparr>],
     next_id := 2\<rparr>"

definition waiting_sink_world :: "nat world" where
  "waiting_sink_world = empty_world\<lparr>
     futures := [0 \<mapsto> \<lparr>fut_promise = None, fut_state = st_result [5]\<rparr>],
     promises := [1 \<mapsto> \<lparr>pr_future = None, pr_state = Some (in_task 2), pr_task = Some 2,
                        pr_local_state = st_invalid\<rparr>],
     tasks := [2 \<mapsto> \<lparr>task_state = st_future, task_func = thread_wake_task 9 3\<rparr>],
     run_queue := [7],
     next_id := 4\<rparr>"

section \<open>Unfolding rules and basic facts\<close>

lemmas then_defs = then_impl_def promise_ctor_def get_future_def closure_move_def promise_move_def
  promise_move_ctor_def future_schedule_def closure_dtor_def promise_dtor_def
  check_during_destruction_def schedule_def promise_schedule_func_def promise_schedule_callback_def
  detach_promise_def abandoned_def

lemmas run_defs = run_and_dispose_def run_closure_def set_exception_def read_state_def write_state_def
  fs_set_exception_def fs_get_exception_def make_ready_def

lemmas lift_defs = futurator_apply_tuple_def futurize_T_apply_tuple_def seastar_apply_def invoke_def
  make_ready_future_def make_exception_future_def future_from_state_def

lemmas get_defs = future_get_def future_get_resume_def get_available_state_def fs_get_def do_wait_def

lemmas finally_defs = future_finally_def then_wrapped_impl_def then_wrapped_impl_with_def
  call_wfunc_def call_finally_body_false_def call_finally_body_true_def call_finally_lambda_def
  wfunc_apply_def rethrow_with_nested_def throw_with_nested_def future_move_def future_dtor_def
  futurize_future_apply_def returned_future_def report_failed_future_def

lemma fresh_ids_lt:
  assumes "fresh_ids w"
  shows "futures w f = Some fu \<Longrightarrow> f < next_id w"
    and "promises w p = Some pr \<Longrightarrow> p < next_id w"
    and "tasks w t = Some ta \<Longrightarrow> t < next_id w"
  using assms unfolding fresh_ids_def by (metis not_le option.distinct(1))+

lemma get_available_state_linked:
  assumes "futures w f = Some fu" and "\<forall>p. fut_promise fu = Some p \<longrightarrow> promises w p \<noteq> None"
  shows "\<exists>w1. get_available_state f w = Some (fut_state fu, w1) \<and> invoked w1 = invoked w \<and>
     run_queue w1 = run_queue w"
proof (cases "fut_promise fu")
  case None
  with assms show ?thesis by (simp add: get_available_state_def)
next
  case (Some p)
  with assms obtain pr where "promises w p = Some pr" by auto
  with Some assms show ?thesis by (simp add: get_available_state_def detach_promise_def)
qed

lemma fresh_pending_pair: "fresh_ids pending_pair"
  by (simp add: fresh_ids_def pending_pair_def empty_world_def)

lemma fresh_failed_future_world: "fresh_ids failed_future_world"
  by (simp add: fresh_ids_def failed_future_world_def empty_world_def)

section \<open>The single-element accessor\<close>

text \<open>
  C9, as stated: \<open>get0\<close> returns the first element when exactly one element type exists
  and \<open>void\<close> otherwise. This fails for a tuple of two elements: the partial
  specialization of \<open>get0_return_type\<close> matches every non-empty pack, so the first
  element is returned, not \<open>void\<close>.
\<close>

theorem get0_two_elements_counterexample:
  "get0 [1::nat, 2] = Some 1 \<and> get0 [1::nat, 2] \<noteq> None"
  by simp

text \<open>
  C9, amended: on a future holding a value tuple, \<open>get0\<close> returns the first element of
  the tuple whenever the tuple has at least one element, and \<open>void\<close> only for the empty
  tuple.
\<close>

theorem get0_first_element:
  assumes "futures w f = Some \<lparr>fut_promise = None, fut_state = st_result v\<rparr>"
  shows "map_option fst (future_get0 f w) =
           Some (completed (Inr (if v = [] then None else Some (v ! 0))))"
  using assms
  by (cases v) (simp_all add: future_get0_def future_get_def future_get_resume_def
      get_available_state_def fs_get_def fs_available_def)

theorem get0_first_element_witness:
  "map_option fst (future_get0 0
      (empty_world\<lparr>futures := [0 \<mapsto> \<lparr>fut_promise = None, fut_state = st_result [7::nat, 8]\<rparr>],
                   next_id := 1\<rparr>)) = Some (completed (Inr (Some 7)))"
  using get0_first_element [where f = 0 and v = "[7::nat, 8]"
      and w = "empty_world\<lparr>futures := [0 \<mapsto> \<lparr>fut_promise = None, fut_state = st_result [7::nat, 8]\<rparr>],
                   next_id := 1\<rparr>"]
  by simp

section \<open>Promises whose state pointer is null\<close>

text \<open>The two ways the state pointer of a promise becomes null: its linked future is
  destroyed, or \<open>make_ready\<close> hands the cell over with the task.\<close>

lemma future_dtor_clears_state_pointer:
  assumes "futures w f = Some fu" and "fut_promise fu = Some p" and "promises w p = Some pr"
  shows "\<exists>w1. future_dtor f w = Some w1 \<and> map_option pr_state (promises w1 p) = Some None"
  using assms
  by (cases "fut_state fu") (simp_all add: future_dtor_def detach_promise_def report_failed_future_def)

lemma make_ready_clears_state_pointer:
  assumes "promises w p = Some pr" and "pr_task pr = Some t"
  shows "\<exists>w1. make_ready urgent p w = Some w1 \<and> map_option pr_state (promises w1 p) = Some None \<and>
           t \<in> set (run_queue w1)"
  using assms by (simp add: make_ready_def schedule_def schedule_urgent_def Let_def)

text \<open>
  C10: on a promise whose state pointer is null, \<open>set_value\<close> and \<open>set_exception\<close>
  return normally and leave the world as it was: no cell is written, no task is enqueued.
\<close>

theorem null_state_set_is_noop:
  assumes "promises w p = Some pr" and "pr_state pr = None"
  shows "set_value p a w = Some w \<and> set_exception p ex w = Some w"
  using assms by (simp add: set_value_def set_exception_def)

theorem null_state_set_is_noop_witness:
  "set_value 0 [5::nat]
     (empty_world\<lparr>promises := [0 \<mapsto> \<lparr>pr_future = None, pr_state = None, pr_task = None,
                                     pr_local_state = st_invalid\<rparr>], next_id := 1\<rparr>)
   = Some (empty_world\<lparr>promises := [0 \<mapsto> \<lparr>pr_future = None, pr_state = None, pr_task = None,
                                     pr_local_state = st_invalid\<rparr>], next_id := 1\<rparr>)"
  using null_state_set_is_noop [where p = 0 and a = "[5::nat]"
      and pr = "\<lparr>pr_future = None, pr_state = None, pr_task = None, pr_local_state = st_invalid\<rparr>"
      and w = "empty_world\<lparr>promises := [0 \<mapsto> \<lparr>pr_future = None, pr_state = None, pr_task = None,
                                     pr_local_state = st_invalid\<rparr>], next_id := 1\<rparr>"]
  by simp

section \<open>Dropped failures\<close>

text \<open>
  C6: destroying a future that holds a failure reports exactly that failure, once, through
  \<open>report_failed_future\<close>; after \<open>ignore_ready_future\<close>, \<open>get\<close> or \<open>get_exception\<close>
  the destructor reports nothing.
\<close>

theorem dropped_failure_reported_once:
  assumes "futures w f = Some fu" and "fut_state fu = st_exception e"
    and "\<forall>p. fut_promise fu = Some p \<longrightarrow> promises w p \<noteq> None"
  shows "(\<exists>w1. future_dtor f w = Some w1 \<and> failed_reports w1 = failed_reports w @ [e]) \<and>
         (\<exists>w1 w2. ignore_ready_future f w = Some w1 \<and> future_dtor f w1 = Some w2 \<and>
             failed_reports w2 = failed_reports w) \<and>
         (\<exists>w1 w2. future_get f w = Some (completed (Inl e), w1) \<and> future_dtor f w1 = Some w2 \<and>
             failed_reports w2 = failed_reports w) \<and>
         (\<exists>w1 w2. future_get_exception f w = Some (e, w1) \<and> future_dtor f w1 = Some w2 \<and>
             failed_reports w2 = failed_reports w)"
proof (cases "fut_promise fu")
  case None
  with assms show ?thesis
    by (simp add: future_dtor_def report_failed_future_def ignore_ready_future_def
        fs_ignore_def future_get_def fs_available_def future_get_resume_def
        get_available_state_def fs_get_def future_get_exception_def fs_get_exception_def)
next
  case (Some p)
  with assms obtain pr where pr: "promises w p = Some pr" by auto
  with Some assms show ?thesis
    by (simp add: future_dtor_def report_failed_future_def ignore_ready_future_def
        fs_ignore_def future_get_def fs_available_def future_get_resume_def
        get_available_state_def fs_get_def future_get_exception_def fs_get_exception_def
        detach_promise_def)
qed

theorem dropped_failure_reported_once_witness:
  "\<exists>w1. future_dtor 0
      (empty_world\<lparr>futures := [0 \<mapsto> \<lparr>fut_promise = None,
                       fut_state = (st_exception (user_exception ''io'') :: nat future_state)\<rparr>],
                   next_id := 1\<rparr>) = Some w1 \<and>
      failed_reports w1 = [user_exception ''io'']"
  using dropped_failure_reported_once [where f = 0 and e = "user_exception ''io''"
      and fu = "\<lparr>fut_promise = None, fut_state = (st_exception (user_exception ''io'') :: nat future_state)\<rparr>"
      and w = "empty_world\<lparr>futures := [0 \<mapsto> \<lparr>fut_promise = None,
                       fut_state = (st_exception (user_exception ''io'') :: nat future_state)\<rparr>],
                   next_id := 1\<rparr>"]
  by (simp add: empty_world_def)

section \<open>Broken promises\<close>

text \<open>A future that is pending and has no promise (the case \<open>abandoned\<close> is written
  for): \<open>get\<close> goes through \<open>do_wait\<close> and \<open>abandoned\<close> and rethrows broken-promise,
  and \<open>wait\<close> leaves broken-promise in the cell.\<close>

lemma abandoned_future_get:
  assumes "futures w f = Some \<lparr>fut_promise = None, fut_state = st_future\<rparr>"
  shows "(\<exists>w1. future_get f w = Some (completed (Inl broken_promise), w1)) \<and>
         (\<exists>w1. future_wait f w = Some (completed (), w1) \<and>
            futures w1 f = Some \<lparr>fut_promise = None, fut_state = st_exception broken_promise\<rparr>)"
  using assms
  by (simp add: future_get_def future_wait_def fs_available_def do_wait_def abandoned_def
      set_to_broken_promise_def future_get_resume_def get_available_state_def fs_get_def)

text \<open>
  C1: for a linked promise/future pair whose cell is pending, destroying the promise leaves
  the future's cell at \<open>failure(broken-promise)\<close> when the destructor is done; \<open>get\<close>
  on the future then rethrows broken-promise, and \<open>wait\<close> returns with the cell still
  holding it.
\<close>

theorem broken_promise_on_destruction:
  assumes "promises w p = Some pr" and "pr_future pr = Some f"
    and "futures w f = Some fu" and "fut_promise fu = Some p" and "fut_state fu = st_future"
  shows "\<exists>w1. promise_dtor p w = Some w1 \<and>
           futures w1 f = Some \<lparr>fut_promise = None, fut_state = st_exception broken_promise\<rparr> \<and>
           (\<exists>w2. future_get f w1 = Some (completed (Inl broken_promise), w2)) \<and>
           (\<exists>w2. future_wait f w1 = Some (completed (), w2) \<and>
              futures w2 f = Some \<lparr>fut_promise = None, fut_state = st_exception broken_promise\<rparr>)"
  using assms
  by (simp add: promise_dtor_def check_during_destruction_def set_to_broken_promise_def
      future_get_def future_wait_def fs_available_def future_get_resume_def
      get_available_state_def fs_get_def)

theorem broken_promise_on_destruction_witness:
  "\<exists>w1. promise_dtor 0
      (empty_world\<lparr>promises := [0 \<mapsto> \<lparr>pr_future = Some 1, pr_state = Some (in_future 1),
                        pr_task = None, pr_local_state = st_invalid\<rparr>],
                   futures := [1 \<mapsto> \<lparr>fut_promise = Some 0, fut_state = (st_future :: nat future_state)\<rparr>],
                   next_id := 2\<rparr>) = Some w1 \<and>
      (\<exists>w2. future_get 1 w1 = Some (completed (Inl broken_promise), w2))"
  using broken_promise_on_destruction [where p = 0 and f = 1
      and pr = "\<lparr>pr_future = Some 1, pr_state = Some (in_future 1),
                        pr_task = None, pr_local_state = st_invalid\<rparr>"
      and fu = "\<lparr>fut_promise = Some 0, fut_state = (st_future :: nat future_state)\<rparr>"
      and w = "empty_world\<lparr>promises := [0 \<mapsto> \<lparr>pr_future = Some 1, pr_state = Some (in_future 1),
                        pr_task = None, pr_local_state = st_invalid\<rparr>],
                   futures := [1 \<mapsto> \<lparr>fut_promise = Some 0, fut_state = (st_future :: nat future_state)\<rparr>],
                   next_id := 2\<rparr>"]
  by auto

section \<open>The lifter catches synchronous failures\<close>

text \<open>
  C2: every specialization and entry point of the lifter returns a future (its result
  type has no way to raise), and when the callable raises \<open>x\<close> synchronously that future
  is available and failed with \<open>x\<close>: plain-return, void-return and future-return
  callables, argument-list and argument-tuple forms.
\<close>

theorem lifter_catches_sync_failures:
  assumes "bodyT args = Inl x" and "bodyV args = Inl x" and "bodyF args = Inl x"
  shows "is_failed_future x (futurize_T_apply n bodyT args w) \<and>
         is_failed_future x (futurize_T_apply_tuple n bodyT args w) \<and>
         is_failed_future x (void_helper_void_apply n bodyV args w) \<and>
         is_failed_future x (void_helper_void_apply_tuple n bodyV args w) \<and>
         is_failed_future x (void_helper_future_apply n bodyF args w) \<and>
         is_failed_future x (void_helper_future_apply_tuple n bodyF args w) \<and>
         is_failed_future x (futurize_void_apply (returns_void n bodyV) args w) \<and>
         is_failed_future x (futurize_void_apply_tuple (returns_void n bodyV) args w) \<and>
         is_failed_future x (futurize_void_apply (returns_future n bodyF) args w) \<and>
         is_failed_future x (futurize_void_apply_tuple (returns_future n bodyF) args w) \<and>
         is_failed_future x (futurize_future_apply n bodyF args w) \<and>
         is_failed_future x (futurize_future_apply_tuple n bodyF args w) \<and>
         is_failed_future x (futurize_apply (func_plain n bodyT) args w) \<and>
         is_failed_future x (futurize_apply (func_void n bodyV) args w) \<and>
         is_failed_future x (futurize_apply (func_future n bodyF) args w) \<and>
         is_failed_future x (futurator_apply_tuple (func_plain n bodyT) args w) \<and>
         is_failed_future x (futurator_apply_tuple (func_void n bodyV) args w) \<and>
         is_failed_future x (futurator_apply_tuple (func_future n bodyF) args w)"
  using assms
  by (simp add: is_failed_future_def futurize_T_apply_def futurize_T_apply_tuple_def
      void_helper_void_apply_def void_helper_void_apply_tuple_def
      void_helper_future_apply_def void_helper_future_apply_tuple_def
      futurize_void_apply_def futurize_void_apply_tuple_def
      futurize_future_apply_def futurize_future_apply_tuple_def
      futurize_apply_def futurator_apply_tuple_def
      seastar_apply_def invoke_def make_exception_future_def future_from_state_def Let_def)

theorem lifter_catches_sync_failures_witness:
  "is_failed_future (user_exception ''x'')
     (futurize_T_apply ''f'' (\<lambda>a. Inl (user_exception ''x'')) [1::nat] empty_world) \<and>
   is_failed_future (user_exception ''x'')
     (futurize_future_apply_tuple ''f'' (\<lambda>a. Inl (user_exception ''x'')) [1::nat] empty_world)"
  using lifter_catches_sync_failures [where bodyT = "\<lambda>a. Inl (user_exception ''x'')"
      and bodyV = "\<lambda>a. Inl (user_exception ''x'')" and bodyF = "\<lambda>a. Inl (user_exception ''x'')"
      and args = "[1::nat]" and x = "user_exception ''x''" and n = "''f''" and w = empty_world]
  by simp

section \<open>then on a failed future\<close>

text \<open>The three ways a failure meets \<open>then\<close> (the default build, where \<open>then\<close> is
  \<open>then_impl\<close>): available and not preempted; available but preempted, so that the
  continuation is scheduled with the cell; pending, the failure set on the promise later.
  In the last two the continuation is run by \<open>run_and_dispose\<close>.\<close>

lemma then_failed_inline:
  assumes "futures w this = Some fu" and "fut_state fu = st_exception e" and "\<not> need_preempt w"
    and "\<forall>p. fut_promise fu = Some p \<longrightarrow> promises w p \<noteq> None"
  shows "\<exists>g w1. then_impl func this w = Some (g, w1) \<and>
           futures w1 g = Some \<lparr>fut_promise = None, fut_state = st_exception e\<rparr> \<and>
           invoked w1 = invoked w \<and> run_queue w1 = run_queue w"
proof -
  from get_available_state_linked [OF assms(1) assms(4)]
  obtain wa where wa: "get_available_state this w = Some (fut_state fu, wa)"
    "invoked wa = invoked w" "run_queue wa = run_queue w" by blast
  have "then_impl func this w = Some (make_exception_future e wa)"
    using assms wa by (simp add: then_impl_def fs_available_def fs_failed_def fs_get_exception_def)
  with wa show ?thesis
    by (simp add: make_exception_future_def future_from_state_def Let_def)
qed

lemma then_failed_preempted:
  assumes "fresh_ids w" and "futures w this = Some fu" and "fut_state fu = st_exception e"
    and "need_preempt w"
  shows "\<exists>g t w1 w2. then_impl func this w = Some (g, w1) \<and> run_queue w1 = run_queue w @ [t] \<and>
           invoked w1 = invoked w \<and> run_and_dispose t w1 = Some w2 \<and>
           futures w2 g = Some \<lparr>fut_promise = None, fut_state = st_exception e\<rparr> \<and>
           invoked w2 = invoked w"
proof -
  have lt: "this < next_id w" using fresh_ids_lt(1) [OF assms(1) assms(2)] .
  show ?thesis
    using assms lt
    by (simp add: then_defs run_defs fs_available_def fs_failed_def Let_def fresh_ids_def)
qed

lemma then_pending_then_failure:
  assumes "fresh_ids w" and "futures w this = Some fu" and "fut_state fu = st_future"
    and "fut_promise fu = Some p" and "promises w p = Some pr"
  shows "\<exists>g t w1 w2 w3. then_impl func this w = Some (g, w1) \<and> run_queue w1 = run_queue w \<and>
           invoked w1 = invoked w \<and> set_exception p e w1 = Some w2 \<and>
           run_queue w2 = run_queue w @ [t] \<and> run_and_dispose t w2 = Some w3 \<and>
           futures w3 g = Some \<lparr>fut_promise = None, fut_state = st_exception e\<rparr> \<and>
           invoked w3 = invoked w"
proof -
  have lt: "this < next_id w" "p < next_id w"
    using fresh_ids_lt [OF assms(1)] assms by blast+
  show ?thesis
    using assms lt
    by (simp add: then_defs run_defs fs_available_def fs_failed_def Let_def fresh_ids_def)
qed

text \<open>
  C3: for a future fulfilled with a failure \<open>e\<close> and any callable, \<open>then\<close> returns a
  future that ends up fulfilled with \<open>e\<close>, and the log of called callables is unchanged:
  when the failure is available at the call (inline, or through the scheduled continuation
  when preemption is needed), and when it arrives later through \<open>set_exception\<close> on the
  promise and the scheduled continuation.
\<close>

theorem then_skips_callable_on_failure:
  assumes "fresh_ids w" and "futures w this = Some fu"
    and "\<forall>p. fut_promise fu = Some p \<longrightarrow> promises w p \<noteq> None"
  shows "(fut_state fu = st_exception e \<and> \<not> need_preempt w \<longrightarrow>
            (\<exists>g w1. then_impl func this w = Some (g, w1) \<and>
               futures w1 g = Some \<lparr>fut_promise = None, fut_state = st_exception e\<rparr> \<and>
               invoked w1 = invoked w \<and> run_queue w1 = run_queue w)) \<and>
         (fut_state fu = st_exception e \<and> need_preempt w \<longrightarrow>
            (\<exists>g t w1 w2. then_impl func this w = Some (g, w1) \<and>
               run_queue w1 = run_queue w @ [t] \<and> invoked w1 = invoked w \<and>
               run_and_dispose t w1 = Some w2 \<and>
               futures w2 g = Some \<lparr>fut_promise = None, fut_state = st_exception e\<rparr> \<and>
               invoked w2 = invoked w)) \<and>
         (fut_state fu = st_future \<and> fut_promise fu = Some p \<longrightarrow>
            (\<exists>g t w1 w2 w3. then_impl func this w = Some (g, w1) \<and>
               run_queue w1 = run_queue w \<and> invoked w1 = invoked w \<and>
               set_exception p e w1 = Some w2 \<and> run_queue w2 = run_queue w @ [t] \<and>
               run_and_dispose t w2 = Some w3 \<and>
               futures w3 g = Some \<lparr>fut_promise = None, fut_state = st_exception e\<rparr> \<and>
               invoked w3 = invoked w))"
proof (intro conjI impI)
  assume "fut_state fu = st_exception e \<and> \<not> need_preempt w"
  then show "\<exists>g w1. then_impl func this w = Some (g, w1) \<and>
               futures w1 g = Some \<lparr>fut_promise = None, fut_state = st_exception e\<rparr> \<and>
               invoked w1 = invoked w \<and> run_queue w1 = run_queue w"
    using then_failed_inline [OF assms(2) _ _ assms(3)] by blast
next
  assume "fut_state fu = st_exception e \<and> need_preempt w"
  then show "\<exists>g t w1 w2. then_impl func this w = Some (g, w1) \<and>
               run_queue w1 = run_queue w @ [t] \<and> invoked w1 = invoked w \<and>
               run_and_dispose t w1 = Some w2 \<and>
               futures w2 g = Some \<lparr>fut_promise = None, fut_state = st_exception e\<rparr> \<and>
               invoked w2 = invoked w"
    using then_failed_preempted [OF assms(1) assms(2)] by blast
next
  assume a: "fut_state fu = st_future \<and> fut_promise fu = Some p"
  with assms(3) obtain pr where "promises w p = Some pr" by auto
  with a show "\<exists>g t w1 w2 w3. then_impl func this w = Some (g, w1) \<and>
               run_queue w1 = run_queue w \<and> invoked w1 = invoked w \<and>
               set_exception p e w1 = Some w2 \<and> run_queue w2 = run_queue w @ [t] \<and>
               run_and_dispose t w2 = Some w3 \<and>
               futures w3 g = Some \<lparr>fut_promise = None, fut_state = st_exception e\<rparr> \<and>
               invoked w3 = invoked w"
    using then_pending_then_failure [OF assms(1) assms(2)] by blast
qed

theorem then_skips_callable_on_failure_witness:
  "(\<exists>g w1. then_impl (func_plain ''f'' (\<lambda>a. Inr (a ! 0 + 1))) 0 failed_future_world = Some (g, w1) \<and>
      futures w1 g = Some \<lparr>fut_promise = None, fut_state = st_exception (user_exception ''io'')\<rparr> \<and>
      invoked w1 = []) \<and>
   (\<exists>g t w1 w2 w3. then_impl (func_plain ''f'' (\<lambda>a. Inr (a ! 0 + 1))) 1 pending_pair = Some (g, w1) \<and>
      set_exception 0 (user_exception ''disk'') w1 = Some w2 \<and> run_queue w2 = [t] \<and>
      run_and_dispose t w2 = Some w3 \<and>
      futures w3 g = Some \<lparr>fut_promise = None, fut_state = st_exception (user_exception ''disk'')\<rparr> \<and>
      invoked w3 = [])"
proof -
  have a: "futures failed_future_world 0 =
      Some \<lparr>fut_promise = None, fut_state = st_exception (user_exception ''io'')\<rparr>"
    by (simp add: failed_future_world_def)
  have b: "futures pending_pair 1 = Some \<lparr>fut_promise = Some 0, fut_state = st_future\<rparr>"
    by (simp add: pending_pair_def)
  have c: "\<forall>p. fut_promise \<lparr>fut_promise = Some (0::nat), fut_state = (st_future :: nat future_state)\<rparr> = Some p
            \<longrightarrow> promises pending_pair p \<noteq> None"
    by (simp add: pending_pair_def)
  have d: "\<not> need_preempt failed_future_world" "invoked failed_future_world = []"
    "invoked pending_pair = []" "run_queue pending_pair = []"
    by (simp_all add: failed_future_world_def pending_pair_def empty_world_def)
  from then_skips_callable_on_failure [OF fresh_failed_future_world a, 
      where e = "user_exception ''io''" and func = "func_plain ''f'' (\<lambda>a. Inr (a ! 0 + 1))"] d
  have first: "\<exists>g w1. then_impl (func_plain ''f'' (\<lambda>a. Inr (a ! 0 + 1))) 0 failed_future_world = Some (g, w1) \<and>
      futures w1 g = Some \<lparr>fut_promise = None, fut_state = st_exception (user_exception ''io'')\<rparr> \<and>
      invoked w1 = []"
    by auto
  from then_skips_callable_on_failure [OF fresh_pending_pair b c,
      where e = "user_exception ''disk''" and p = 0 and func = "func_plain ''f'' (\<lambda>a. Inr (a ! 0 + 1))"] d
  have second: "\<exists>g t w1 w2 w3. then_impl (func_plain ''f'' (\<lambda>a. Inr (a ! 0 + 1))) 1 pending_pair = Some (g, w1) \<and>
      set_exception 0 (user_exception ''disk'') w1 = Some w2 \<and> run_queue w2 = [t] \<and>
      run_and_dispose t w2 = Some w3 \<and>
      futures w3 g = Some \<lparr>fut_promise = None, fut_state = st_exception (user_exception ''disk'')\<rparr> \<and>
      invoked w3 = []"
    by simp blast
  from first second show ?thesis by blast
qed

section \<open>then on an available future\<close>

lemma futurator_apply_tuple_invoked:
  "invoked (snd (futurator_apply_tuple func v w)) = invoked w @ [func_name func] \<and>
   run_queue (snd (futurator_apply_tuple func v w)) = run_queue w"
  by (cases func)
     (auto simp: futurator_apply_tuple_def futurize_T_apply_tuple_def futurize_void_apply_tuple_def
      void_helper_void_apply_tuple_def futurize_future_apply_tuple_def seastar_apply_def
      invoke_def make_ready_future_def make_exception_future_def future_from_state_def
      returned_future_def func_name_def Let_def split: sum.splits fut_result.splits)

text \<open>
  C4, as stated: for every available future, \<open>then(f)\<close> invokes \<open>f\<close> before returning when
  \<open>need_preempt()\<close> is false. A failed future is available, and on it \<open>f\<close> is not
  invoked.
\<close>

theorem then_available_failed_counterexample:
  "fs_available (st_exception (user_exception ''io'') :: nat future_state) \<and>
   \<not> need_preempt failed_future_world \<and>
   map_option (invoked \<circ> snd) (then_impl (func_plain ''f'' plus_one) 0 failed_future_world)
     = Some [] \<and>
   result_state (then_impl (func_plain ''f'' plus_one) 0 failed_future_world)
     = Some (st_exception (user_exception ''io''))"
  by (simp add: then_impl_def get_available_state_def fs_available_def fs_failed_def
      fs_get_exception_def make_exception_future_def future_from_state_def empty_world_def
      failed_future_world_def result_state_def Let_def)

text \<open>
  C4, amended: for every future that is available with a value and every callable, if
  \<open>need_preempt()\<close> is false at the call, \<open>then(f)\<close> has invoked \<open>f\<close> when it returns,
  and nothing was handed to the scheduler.
\<close>

theorem then_inline_when_value:
  assumes "futures w this = Some fu" and "fut_state fu = st_result v" and "\<not> need_preempt w"
    and "\<forall>p. fut_promise fu = Some p \<longrightarrow> promises w p \<noteq> None"
  shows "\<exists>g w1. then_impl func this w = Some (g, w1) \<and>
           invoked w1 = invoked w @ [func_name func] \<and> run_queue w1 = run_queue w"
proof -
  from get_available_state_linked [OF assms(1) assms(4)]
  obtain wa where wa: "get_available_state this w = Some (fut_state fu, wa)"
    "invoked wa = invoked w" "run_queue wa = run_queue w" by blast
  have "then_impl func this w = Some (futurator_apply_tuple func v wa)"
    using assms wa by (simp add: then_impl_def fs_available_def fs_failed_def fs_get_value_def)
  with futurator_apply_tuple_invoked [of func v wa] wa show ?thesis
    by (cases "futurator_apply_tuple func v wa") simp
qed

theorem then_inline_when_value_witness:
  "\<exists>g w1. then_impl (func_plain ''f'' (\<lambda>a. Inr (a ! 0 + 1))) 0 ready_future_world = Some (g, w1) \<and>
     invoked w1 = [''f''] \<and> run_queue w1 = []"
  using then_inline_when_value [where w = ready_future_world and this = 0 and v = "[5]"
      and fu = "\<lparr>fut_promise = None, fut_state = st_result [5]\<rparr>"
      and func = "func_plain ''f'' (\<lambda>a. Inr (a ! 0 + 1))"]
  by (simp add: ready_future_world_def empty_world_def func_name_def)

section \<open>The round trip through then and get\<close>

text \<open>
  C8, as stated: \<open>ready_value(v).then(f).get()\<close> yields \<open>f(v)\<close>. When \<open>need_preempt()\<close>
  is true, \<open>then\<close> schedules the continuation and returns a pending future; \<open>get\<close>
  outside a seastar thread then fails the assertion in \<open>do_wait\<close>.
\<close>

theorem ready_then_get_counterexample:
  "ready_then_get ''f'' plus_one [5] (empty_world\<lparr>need_preempt := True\<rparr>) = None"
  by (simp add: ready_then_get_def then_defs lift_defs get_defs empty_world_def
       fs_available_def fs_failed_def fs_get_value_def Let_def)

lemma ready_then_get_inline:
  assumes "\<not> need_preempt w"
  shows "map_option fst (ready_then_get n body v w) =
           Some (completed (case body v of Inl x \<Rightarrow> Inl x | Inr y \<Rightarrow> Inr [y]))"
  using assms
  by (cases "body v") (simp_all add: ready_then_get_def then_impl_def lift_defs get_defs
       fs_available_def fs_failed_def fs_get_value_def Let_def)

lemma ready_then_get_in_thread:
  assumes "fresh_ids w" and "need_preempt w" and "current_thread w = Some th" and "run_queue w = []"
    and "body v = Inr y"
  shows "\<exists>g w1 w2 w3 w4. ready_then_get n body v w = Some (suspended, g, w1) \<and>
           reactor_step w1 = Some w2 \<and> reactor_step w2 = Some w3 \<and>
           switched_in w3 = switched_in w @ [th] \<and>
           future_get_resume g w3 = Some (Inr [y], w4)"
  using assms
  by (simp add: ready_then_get_def then_defs lift_defs get_defs reactor_step_def run_defs
       forward_to_def set_urgent_state_def future_dtor_def switch_in_def
       fs_available_def fs_failed_def fs_get_value_def Let_def fresh_ids_def)

text \<open>
  C8, amended: for a value \<open>v\<close> and a pure synchronous callable returning \<open>y\<close> on \<open>v\<close>:
  when \<open>need_preempt()\<close> is false at the \<open>then\<close> call, \<open>get\<close> yields \<open>y\<close>; when it is
  true and \<open>get\<close> is called from a seastar thread with an idle reactor, \<open>get\<close> switches
  the thread out, the reactor runs the continuation and then the wake task, which switches
  the thread in, and the rest of \<open>get\<close> yields \<open>y\<close>.
\<close>

theorem ready_then_get_law:
  assumes "body v = Inr y"
  shows "(\<not> need_preempt w \<longrightarrow>
            map_option fst (ready_then_get n body v w) = Some (completed (Inr [y]))) \<and>
         (need_preempt w \<and> fresh_ids w \<and> current_thread w = Some th \<and> run_queue w = [] \<longrightarrow>
            (\<exists>g w1 w2 w3 w4. ready_then_get n body v w = Some (suspended, g, w1) \<and>
               reactor_step w1 = Some w2 \<and> reactor_step w2 = Some w3 \<and>
               switched_in w3 = switched_in w @ [th] \<and>
               future_get_resume g w3 = Some (Inr [y], w4)))"
  using ready_then_get_inline [of w n body v] ready_then_get_in_thread [of w th body v y n] assms
  by simp

theorem ready_then_get_law_witness:
  "map_option fst (ready_then_get ''f'' (\<lambda>a. Inr (a ! 0 + 1)) [5::nat] empty_world)
     = Some (completed (Inr [6])) \<and>
   (\<exists>g w1 w2 w3 w4.
      ready_then_get ''f'' (\<lambda>a. Inr (a ! 0 + 1)) [5::nat]
        (empty_world\<lparr>need_preempt := True, current_thread := Some 9\<rparr>) = Some (suspended, g, w1) \<and>
      reactor_step w1 = Some w2 \<and> reactor_step w2 = Some w3 \<and> switched_in w3 = [9] \<and>
      future_get_resume g w3 = Some (Inr [6], w4))"
proof -
  have f: "fresh_ids (empty_world\<lparr>need_preempt := True, current_thread := Some 9\<rparr> :: nat world)"
    by (simp add: fresh_ids_def empty_world_def)
  from ready_then_get_law [where body = "\<lambda>a. Inr (a ! 0 + 1)" and v = "[5::nat]" and y = 6
      and w = "empty_world :: nat world" and n = "''f''"]
  have first: "map_option fst (ready_then_get ''f'' (\<lambda>a. Inr (a ! 0 + 1)) [5::nat] empty_world)
     = Some (completed (Inr [6]))"
    by (simp add: empty_world_def)
  from ready_then_get_law [where body = "\<lambda>a. Inr (a ! 0 + 1)" and v = "[5::nat]" and y = 6
      and n = "''f''" and th = 9
      and w = "empty_world\<lparr>need_preempt := True, current_thread := Some 9\<rparr> :: nat world"] f
  have second: "\<exists>g w1 w2 w3 w4.
      ready_then_get ''f'' (\<lambda>a. Inr (a ! 0 + 1)) [5::nat]
        (empty_world\<lparr>need_preempt := True, current_thread := Some 9\<rparr>) = Some (suspended, g, w1) \<and>
      reactor_step w1 = Some w2 \<and> reactor_step w2 = Some w3 \<and> switched_in w3 = [9] \<and>
      future_get_resume g w3 = Some (Inr [6], w4)"
    by (simp add: empty_world_def)
  from first second show ?thesis by blast
qed

section \<open>forward_to\<close>

lemma forward_to_available:
  assumes "futures w f = Some fu" and "fs_available (fut_state fu)"
    and "promises w p = Some pr" and "pr_state pr = Some l" and "l \<noteq> in_future f"
    and "read_state l w \<noteq> None"
  shows "\<exists>w1. forward_to f p w = Some w1 \<and>
           read_state l w1 = Some (fut_state fu) \<and>
           read_state (in_future f) w1 = Some st_invalid \<and>
           (case pr_task pr of
              None \<Rightarrow> run_queue w1 = run_queue w
            | Some t \<Rightarrow> run_queue w1 = (if need_preempt w then run_queue w @ [t] else t # run_queue w) \<and>
                map_option pr_state (promises w1 p) = Some None \<and>
                map_option pr_task (promises w1 p) = Some None)"
  using assms
  by (cases l; cases "pr_task pr")
     (auto simp: forward_to_def set_urgent_state_def read_state_def write_state_def make_ready_def
       schedule_def schedule_urgent_def Let_def)

lemma forward_to_pending:
  assumes "futures w f = Some fu" and "\<not> fs_available (fut_state fu)"
    and "fut_promise fu = Some q" and "promises w q = Some prq" and "pr_task prq = None"
    and "promises w p = Some pr" and "p \<noteq> q" and "pr_future pr \<noteq> Some f"
    and "\<forall>g. pr_future pr = Some g \<longrightarrow> futures w g \<noteq> None"
  shows "\<exists>w1. forward_to f p w = Some w1 \<and>
           promises w1 q = Some \<lparr>pr_future = pr_future pr,
              pr_state = (if pr_state pr = Some (in_promise p) then Some (in_promise q) else pr_state pr),
              pr_task = pr_task pr,
              pr_local_state = (if pr_state pr = Some (in_promise p) then pr_local_state pr else st_future)\<rparr> \<and>
           map_option pr_state (promises w1 p) = Some None \<and>
           map_option pr_future (promises w1 p) = Some None \<and>
           map_option pr_task (promises w1 p) = Some None \<and>
           map_option fut_promise (futures w1 f) = Some None \<and>
           (case pr_future pr of None \<Rightarrow> True
            | Some g \<Rightarrow> map_option fut_promise (futures w1 g) = Some (Some q)) \<and>
           run_queue w1 = run_queue w"
proof (cases "pr_future pr")
  case None
  with assms show ?thesis
    by (simp add: forward_to_def detach_promise_def promise_move_assign_def promise_dtor_def
        check_during_destruction_def promise_move_ctor_def Let_def)
next
  case (Some g)
  with assms obtain fg where "futures w g = Some fg" by auto
  with Some assms show ?thesis
    by (auto simp: forward_to_def detach_promise_def promise_move_assign_def promise_dtor_def
        check_during_destruction_def promise_move_ctor_def Let_def)
qed

text \<open>
  C7, as stated: for every available future and every promise \<open>p\<close>, \<open>forward_to\<close>
  satisfies \<open>p\<close> with the future's state. A promise whose state pointer is null (its
  future was destroyed) is left as it is: the cell stays in the future, nothing is written
  and nothing is enqueued.
\<close>

theorem forward_to_null_state_counterexample:
  "fs_available (st_result [5::nat]) \<and>
   forward_to 0 1 dropped_sink_world = Some dropped_sink_world \<and>
   read_state (in_future 0) dropped_sink_world = Some (st_result [5]) \<and>
   read_state (in_promise 1) dropped_sink_world = Some st_invalid \<and>
   run_queue dropped_sink_world = []"
  by (simp add: forward_to_def set_urgent_state_def fs_available_def dropped_sink_world_def
      read_state_def empty_world_def)

text \<open>
  C7, amended: for an available future and a promise \<open>p\<close> whose state pointer is set,
  \<open>forward_to\<close> moves the future's state into the cell \<open>p\<close> points to, and a pending
  task of \<open>p\<close> is enqueued urgently (at the front) iff \<open>need_preempt()\<close> is false and
  normally (at the back) otherwise; when the state pointer of \<open>p\<close> is null nothing
  changes. For a future that is not available, \<open>p\<close> is moved into the place of the
  future's linked promise \<open>q\<close>: \<open>q\<close> takes over the future, state and task of \<open>p\<close>, the
  future of \<open>p\<close> points to \<open>q\<close>, and \<open>p\<close> is left empty.
\<close>

theorem forward_to_behaviour:
  assumes "futures w f = Some fu" and "promises w p = Some pr"
  shows "(fs_available (fut_state fu) \<and> pr_state pr = Some l \<and> l \<noteq> in_future f \<and>
          read_state l w \<noteq> None \<longrightarrow>
            (\<exists>w1. forward_to f p w = Some w1 \<and>
               read_state l w1 = Some (fut_state fu) \<and>
               read_state (in_future f) w1 = Some st_invalid \<and>
               (case pr_task pr of
                  None \<Rightarrow> run_queue w1 = run_queue w
                | Some t \<Rightarrow>
                    run_queue w1 = (if need_preempt w then run_queue w @ [t] else t # run_queue w) \<and>
                    map_option pr_state (promises w1 p) = Some None \<and>
                    map_option pr_task (promises w1 p) = Some None))) \<and>
         (fs_available (fut_state fu) \<and> pr_state pr = None \<longrightarrow> forward_to f p w = Some w) \<and>
         (\<not> fs_available (fut_state fu) \<and> fut_promise fu = Some q \<and> promises w q = Some prq \<and>
          pr_task prq = None \<and> p \<noteq> q \<and> pr_future pr \<noteq> Some f \<and>
          (\<forall>g. pr_future pr = Some g \<longrightarrow> futures w g \<noteq> None) \<longrightarrow>
            (\<exists>w1. forward_to f p w = Some w1 \<and>
               promises w1 q = Some \<lparr>pr_future = pr_future pr,
                  pr_state = (if pr_state pr = Some (in_promise p) then Some (in_promise q)
                              else pr_state pr),
                  pr_task = pr_task pr,
                  pr_local_state = (if pr_state pr = Some (in_promise p) then pr_local_state pr
                                    else st_future)\<rparr> \<and>
               map_option pr_state (promises w1 p) = Some None \<and>
               map_option pr_future (promises w1 p) = Some None \<and>
               map_option pr_task (promises w1 p) = Some None \<and>
               map_option fut_promise (futures w1 f) = Some None \<and>
               (case pr_future pr of None \<Rightarrow> True
                | Some g \<Rightarrow> map_option fut_promise (futures w1 g) = Some (Some q)) \<and>
               run_queue w1 = run_queue w))"
proof (intro conjI impI)
  assume "fs_available (fut_state fu) \<and> pr_state pr = Some l \<and> l \<noteq> in_future f \<and>
          read_state l w \<noteq> None"
  then show "\<exists>w1. forward_to f p w = Some w1 \<and>
               read_state l w1 = Some (fut_state fu) \<and>
               read_state (in_future f) w1 = Some st_invalid \<and>
               (case pr_task pr of
                  None \<Rightarrow> run_queue w1 = run_queue w
                | Some t \<Rightarrow>
                    run_queue w1 = (if need_preempt w then run_queue w @ [t] else t # run_queue w) \<and>
                    map_option pr_state (promises w1 p) = Some None \<and>
                    map_option pr_task (promises w1 p) = Some None)"
    using forward_to_available [OF assms(1) _ assms(2)] by blast
next
  assume "fs_available (fut_state fu) \<and> pr_state pr = None"
  then show "forward_to f p w = Some w"
    using assms by (simp add: forward_to_def set_urgent_state_def)
next
  assume "\<not> fs_available (fut_state fu) \<and> fut_promise fu = Some q \<and> promises w q = Some prq \<and>
          pr_task prq = None \<and> p \<noteq> q \<and> pr_future pr \<noteq> Some f \<and>
          (\<forall>g. pr_future pr = Some g \<longrightarrow> futures w g \<noteq> None)"
  then show "\<exists>w1. forward_to f p w = Some w1 \<and>
               promises w1 q = Some \<lparr>pr_future = pr_future pr,
                  pr_state = (if pr_state pr = Some (in_promise p) then Some (in_promise q)
                              else pr_state pr),
                  pr_task = pr_task pr,
                  pr_local_state = (if pr_state pr = Some (in_promise p) then pr_local_state pr
                                    else st_future)\<rparr> \<and>
               map_option pr_state (promises w1 p) = Some None \<and>
               map_option pr_future (promises w1 p) = Some None \<and>
               map_option pr_task (promises w1 p) = Some None \<and>
               map_option fut_promise (futures w1 f) = Some None \<and>
               (case pr_future pr of None \<Rightarrow> True
                | Some g \<Rightarrow> map_option fut_promise (futures w1 g) = Some (Some q)) \<and>
               run_queue w1 = run_queue w"
    using forward_to_pending [OF assms(1) _ _ _ _ assms(2)] by blast
qed

theorem forward_to_behaviour_witness:
  "(\<exists>w1. forward_to 0 1 waiting_sink_world = Some w1 \<and>
      read_state (in_task 2) w1 = Some (st_result [5]) \<and>
      read_state (in_future 0) w1 = Some st_invalid \<and>
      run_queue w1 = [2, 7]) \<and>
   (\<exists>w1. forward_to 0 1 (waiting_sink_world\<lparr>need_preempt := True\<rparr>) = Some w1 \<and>
      read_state (in_task 2) w1 = Some (st_result [5]) \<and>
      run_queue w1 = [7, 2])"
proof -
  have a: "futures waiting_sink_world 0 = Some \<lparr>fut_promise = None, fut_state = st_result [5]\<rparr>"
    "promises waiting_sink_world 1 = Some \<lparr>pr_future = None, pr_state = Some (in_task 2),
        pr_task = Some 2, pr_local_state = st_invalid\<rparr>"
    by (simp_all add: waiting_sink_world_def)
  have b: "futures (waiting_sink_world\<lparr>need_preempt := True\<rparr>) 0 =
             Some \<lparr>fut_promise = None, fut_state = st_result [5]\<rparr>"
    "promises (waiting_sink_world\<lparr>need_preempt := True\<rparr>) 1 =
       Some \<lparr>pr_future = None, pr_state = Some (in_task 2),
        pr_task = Some 2, pr_local_state = st_invalid\<rparr>"
    by (simp_all add: waiting_sink_world_def)
  from forward_to_behaviour [OF a, where l = "in_task 2"]
  have first: "\<exists>w1. forward_to 0 1 waiting_sink_world = Some w1 \<and>
      read_state (in_task 2) w1 = Some (st_result [5]) \<and>
      read_state (in_future 0) w1 = Some st_invalid \<and>
      run_queue w1 = [2, 7]"
    by (simp add: fs_available_def read_state_def waiting_sink_world_def empty_world_def) blast
  from forward_to_behaviour [OF b, where l = "in_task 2"]
  have second: "\<exists>w1. forward_to 0 1 (waiting_sink_world\<lparr>need_preempt := True\<rparr>) = Some w1 \<and>
      read_state (in_task 2) w1 = Some (st_result [5]) \<and>
      run_queue w1 = [7, 2]"
    by (simp add: fs_available_def read_state_def waiting_sink_world_def empty_world_def) blast
  from first second show ?thesis by blast
qed

section \<open>finally\<close>

text \<open>\<open>finally\<close> with a synchronous callable on an available future, not preempted: the
  callable is called; when it returns, the original cell is forwarded; when it raises
  \<open>x\<close> on a future holding a value, the result fails with \<open>x\<close>; when it raises \<open>x\<close>
  on a failed future, the result fails with a \<open>std::nested_exception\<close> whose nested
  pointer is \<open>x\<close>.\<close>

lemma finally_sync_inline:
  assumes "fresh_ids w" and "futures w this = Some fu" and "fut_promise fu = None"
    and "fs_available (fut_state fu)" and "\<not> need_preempt w"
  shows "\<exists>g w1. future_finally (func_void n body) this w = Some (g, w1) \<and>
           invoked w1 = invoked w @ [n] \<and>
           map_option fut_state (futures w1 g) = Some
             (case body [] of
                Inr u \<Rightarrow> fut_state fu
              | Inl x \<Rightarrow> (case fut_state fu of
                            st_exception e0 \<Rightarrow> st_exception (nested_exception (Some x))
                          | st_result v \<Rightarrow> st_exception x
                          | st_invalid \<Rightarrow> st_exception x
                          | st_future \<Rightarrow> st_exception x))"
proof -
  have lt: "this < next_id w" using fresh_ids_lt(1) [OF assms(1) assms(2)] .
  show ?thesis
    using assms lt
    by (cases "body []"; cases "fut_state fu")
       (simp_all add: finally_defs get_defs lift_defs fs_available_def fs_failed_def Let_def)
qed

text \<open>
  C5 at the input where the code departs from it: a future failed with \<open>io\<close>, and a
  callable that fails with \<open>fin\<close> (by raising, or by returning a failed future). The
  claim asks for \<open>fin\<close> on top with \<open>io\<close> nested inside. The result of \<open>finally\<close>
  is a \<open>std::nested_exception\<close> whose nested pointer is \<open>fin\<close>; \<open>io\<close> occurs nowhere
  in it, and nothing is reported as dropped.
\<close>

theorem finally_both_fail_drops_original:
  "result_state (future_finally (func_void ''f'' raise_fin) 0 failed_future_world)
     = Some (st_exception (nested_exception (Some (user_exception ''fin'')))) \<and>
   result_state (future_finally (func_future ''f'' return_failed_fin) 0 failed_future_world)
     = Some (st_exception (nested_exception (Some (user_exception ''fin'')))) \<and>
   map_option (failed_reports \<circ> snd)
     (future_finally (func_void ''f'' raise_fin) 0 failed_future_world) = Some [] \<and>
   map_option (failed_reports \<circ> snd)
     (future_finally (func_future ''f'' return_failed_fin) 0 failed_future_world) = Some []"
  by (simp add: finally_defs get_defs lift_defs failed_future_world_def empty_world_def
      fs_available_def fs_failed_def result_state_def raise_fin_def return_failed_fin_def Let_def)


end
